theory Spec2Isabelle
  imports Complex_Main "HOL-Library.Sublist"
begin

section \<open>Hand2Data backend: preprocessing, presets, engines and the model lifecycle\<close>

text \<open>
  A shallow embedding of \<^verbatim>\<open>backend/app/services/tesseract_service.py\<close>,
  \<^verbatim>\<open>backend/app/services/trocr_service.py\<close> and
  \<^verbatim>\<open>backend/app/routes/ocr_routes.py\<close>.

  Conventions.
  \<^item> Python \<^verbatim>\<open>int\<close> is \<^typ>\<open>int\<close>; \<^verbatim>\<open>%\<close> with a positive divisor is \<open>mod\<close>
    (both give a result in \<open>0..<2\<close> for divisor 2, also on negative numbers).
  \<^item> Python \<^verbatim>\<open>float\<close> is idealised as \<^typ>\<open>real\<close>: rounding of the division is not
    modelled. The literals \<^verbatim>\<open>0.95\<close>, \<^verbatim>\<open>0.8\<close>, \<^verbatim>\<open>0.7\<close>, \<^verbatim>\<open>0.9\<close> stand for themselves.
  \<^item> A raised exception is \<open>Inl\<close> of its message (\<^verbatim>\<open>str(e)\<close>); side effects made
    before the raise stay in the returned state.
  \<^item> Calls into OpenCV, pytesseract, torch, transformers, the file system and the child
    process are not part of the repository: their outcomes are parameters of the model.
  \<^item> A leading underscore of a Python name is dropped
    (\<^verbatim>\<open>_get_preprocessing_settings\<close> is \<open>get_preprocessing_settings\<close>).
\<close>

subsection \<open>OpenCV as a parameter\<close>

datatype color_conversion = COLOR_BGR2GRAY | COLOR_BGR2RGB | COLOR_RGB2BGR

datatype adaptive_method = ADAPTIVE_THRESH_GAUSSIAN_C | ADAPTIVE_THRESH_MEAN_C

text \<open>\<open>THRESH_BINARY_OTSU\<close> is the flag sum \<^verbatim>\<open>cv2.THRESH_BINARY + cv2.THRESH_OTSU\<close>.\<close>

datatype threshold_type = THRESH_BINARY | THRESH_BINARY_OTSU

text \<open>
  The four OpenCV functions the pipeline calls, with the arguments in the order the source
  passes them. Each may raise (\<open>Inl\<close>).
\<close>

record 'img cv2 =
  cvtColor :: "'img \<Rightarrow> color_conversion \<Rightarrow> string + 'img"
  GaussianBlur :: "'img \<Rightarrow> int \<times> int \<Rightarrow> int \<Rightarrow> string + 'img"
  adaptiveThreshold ::
    "'img \<Rightarrow> int \<Rightarrow> adaptive_method \<Rightarrow> threshold_type \<Rightarrow> int \<Rightarrow> int \<Rightarrow> string + 'img"
  threshold :: "'img \<Rightarrow> int \<Rightarrow> int \<Rightarrow> threshold_type \<Rightarrow> string + 'img"

text \<open>Sequencing of calls that may raise: the first exception ends the computation.\<close>

definition and_then :: "'e + 'a \<Rightarrow> ('a \<Rightarrow> 'e + 'b) \<Rightarrow> 'e + 'b" where
  "and_then r f = (case r of Inl e \<Rightarrow> Inl e | Inr x \<Rightarrow> f x)"

subsection \<open>The preprocessing pipeline\<close>

text \<open>
  \<^verbatim>\<open>TesseractService.preprocess_image\<close> (tesseract\_service.py, lines 32-67) and
  \<^verbatim>\<open>TrOCRService.preprocess_image\<close> (trocr\_service.py, lines 139-174) have the same body.
\<close>

definition preprocess_image ::
  "'img cv2 \<Rightarrow> 'img \<Rightarrow> int \<Rightarrow> string \<Rightarrow> int \<Rightarrow> int \<Rightarrow> int \<Rightarrow> string + 'img" where
  "preprocess_image cv img blur_kernel threshold_method block_size c_value simple_thresh_value =
     and_then (cvtColor cv img COLOR_BGR2GRAY) (\<lambda>gray_image.
       let blur_kernel = (if blur_kernel mod 2 = 0 then blur_kernel + 1 else blur_kernel) in
       and_then (GaussianBlur cv gray_image (blur_kernel, blur_kernel) 0) (\<lambda>blurred_image.
         if threshold_method = ''Adaptive Gaussian'' then
           adaptiveThreshold cv blurred_image 255 ADAPTIVE_THRESH_GAUSSIAN_C THRESH_BINARY
             block_size c_value
         else if threshold_method = ''Adaptive Mean'' then
           adaptiveThreshold cv blurred_image 255 ADAPTIVE_THRESH_MEAN_C THRESH_BINARY
             block_size c_value
         else if threshold_method = ''Otsu'' then
           threshold cv blurred_image 0 255 THRESH_BINARY_OTSU
         else
           threshold cv blurred_image simple_thresh_value 255 THRESH_BINARY))"

text \<open>
  Lines 47-65 on their own, as a function of the blurred image: the thresholding step that
  ends the pipeline.
\<close>

definition threshold_step ::
  "'img cv2 \<Rightarrow> 'img \<Rightarrow> string \<Rightarrow> int \<Rightarrow> int \<Rightarrow> int \<Rightarrow> string + 'img" where
  "threshold_step cv blurred_image threshold_method block_size c_value simple_thresh_value =
     (if threshold_method = ''Adaptive Gaussian'' then
        adaptiveThreshold cv blurred_image 255 ADAPTIVE_THRESH_GAUSSIAN_C THRESH_BINARY
          block_size c_value
      else if threshold_method = ''Adaptive Mean'' then
        adaptiveThreshold cv blurred_image 255 ADAPTIVE_THRESH_MEAN_C THRESH_BINARY
          block_size c_value
      else if threshold_method = ''Otsu'' then
        threshold cv blurred_image 0 255 THRESH_BINARY_OTSU
      else
        threshold cv blurred_image simple_thresh_value 255 THRESH_BINARY)"

text \<open>
  A library instance that never raises and records the calls made on an image as a term.
  It serves to read off which arguments the pipeline passes.
\<close>

datatype recorded_image =
  Source_image
| CvtColor recorded_image color_conversion
| Blurred recorded_image "int \<times> int" int
| Adaptive_thresholded recorded_image int adaptive_method threshold_type int int
| Thresholded recorded_image int int threshold_type

definition recording_cv2 :: "recorded_image cv2" where
  "recording_cv2 =
     \<lparr> cvtColor = (\<lambda>i c. Inr (CvtColor i c)),
       GaussianBlur = (\<lambda>i k sg. Inr (Blurred i k sg)),
       adaptiveThreshold = (\<lambda>i mx am tt b c. Inr (Adaptive_thresholded i mx am tt b c)),
       threshold = (\<lambda>i t mx tt. Inr (Thresholded i t mx tt)) \<rparr>"

subsection \<open>Preset resolution of the preprocessing settings\<close>

text \<open>
  The dictionary \<^verbatim>\<open>settings\<close> has at most four keys; the field \<open>s_k\<close> is the entry of
  key \<^verbatim>\<open>k\<close>, \<open>None\<close> when the key is absent. \<^verbatim>\<open>settings.get(k, d)\<close> is \<open>dict_get (s_k settings) d\<close>.
\<close>

record preprocessing_settings =
  s_blur_kernel :: "int option"
  s_threshold_method :: "string option"
  s_block_size :: "int option"
  s_c_value :: "int option"

definition dict_get :: "'a option \<Rightarrow> 'a \<Rightarrow> 'a" where
  "dict_get entry dflt = (case entry of None \<Rightarrow> dflt | Some v \<Rightarrow> v)"

text \<open>\<^verbatim>\<open>TesseractService._get_preprocessing_settings\<close> (lines 69-122).\<close>

definition get_preprocessing_settings :: "string \<Rightarrow> string \<Rightarrow> preprocessing_settings" where
  "get_preprocessing_settings processing_speed accuracy_level =
     (let settings = \<lparr> s_blur_kernel = None, s_threshold_method = None, s_block_size = None,
                        s_c_value = None \<rparr>;
          settings =
            (if processing_speed = ''fast'' then
               settings\<lparr> s_blur_kernel := Some 3, s_threshold_method := Some ''Simple'',
                         s_block_size := Some 7, s_c_value := Some 1 \<rparr>
             else if processing_speed = ''balanced'' then
               settings\<lparr> s_blur_kernel := Some 5, s_threshold_method := Some ''Adaptive Gaussian'',
                         s_block_size := Some 11, s_c_value := Some 2 \<rparr>
             else if processing_speed = ''high'' then
               settings\<lparr> s_blur_kernel := Some 7, s_threshold_method := Some ''Adaptive Gaussian'',
                         s_block_size := Some 15, s_c_value := Some 3 \<rparr>
             else if processing_speed = ''maximum'' then
               settings\<lparr> s_blur_kernel := Some 9, s_threshold_method := Some ''Otsu'',
                         s_block_size := Some 19, s_c_value := Some 4 \<rparr>
             else settings)
      in
        if accuracy_level = ''low'' then settings
        else if accuracy_level = ''medium'' then
          (if processing_speed \<noteq> ''fast''
           then settings\<lparr> s_threshold_method := Some ''Adaptive Gaussian'' \<rparr>
           else settings)
        else if accuracy_level = ''high'' then
          (if processing_speed \<notin> set [''fast'', ''balanced'']
           then settings\<lparr> s_threshold_method := Some ''Adaptive Gaussian'',
                          s_block_size := Some (max (dict_get (s_block_size settings) 11) 13) \<rparr>
           else settings)
        else if accuracy_level = ''maximum'' then
          settings\<lparr> s_threshold_method := Some ''Otsu'',
                    s_block_size := Some (max (dict_get (s_block_size settings) 11) 15),
                    s_c_value := Some (max (dict_get (s_c_value settings) 2) 3) \<rparr>
        else settings)"

text \<open>
  The policy of the specification (section 4.2), written from its words: the speed axis
  gives the baseline row, the accuracy axis is an overlay on it.
\<close>

datatype speed = Fast | Balanced | High | Maximum

datatype accuracy = Low | Medium | High_accuracy | Maximum_accuracy

datatype threshold_kind = AdaptiveGaussian | AdaptiveMean | Otsu | Simple

record preprocessing_params =
  p_blur :: int
  p_method :: threshold_kind
  p_block :: int
  p_c :: int

fun policy_table :: "speed \<Rightarrow> preprocessing_params" where
  "policy_table Fast = \<lparr> p_blur = 3, p_method = Simple, p_block = 7, p_c = 1 \<rparr>"
| "policy_table Balanced = \<lparr> p_blur = 5, p_method = AdaptiveGaussian, p_block = 11, p_c = 2 \<rparr>"
| "policy_table High = \<lparr> p_blur = 7, p_method = AdaptiveGaussian, p_block = 15, p_c = 3 \<rparr>"
| "policy_table Maximum = \<lparr> p_blur = 9, p_method = Otsu, p_block = 19, p_c = 4 \<rparr>"

fun accuracy_overlay :: "speed \<Rightarrow> accuracy \<Rightarrow> preprocessing_params \<Rightarrow> preprocessing_params" where
  "accuracy_overlay sp Low p = p"
| "accuracy_overlay sp Medium p = (if sp = Fast then p else p\<lparr> p_method := AdaptiveGaussian \<rparr>)"
| "accuracy_overlay sp High_accuracy p =
     (if sp = Fast \<or> sp = Balanced then p
      else p\<lparr> p_method := AdaptiveGaussian, p_block := max (p_block p) 13 \<rparr>)"
| "accuracy_overlay sp Maximum_accuracy p =
     p\<lparr> p_method := Otsu, p_block := max (p_block p) 15, p_c := max (p_c p) 3 \<rparr>"

definition resolve :: "speed \<Rightarrow> accuracy \<Rightarrow> preprocessing_params" where
  "resolve sp ac = accuracy_overlay sp ac (policy_table sp)"

text \<open>The request strings of the enum values, and the method names the pipeline compares.\<close>

fun speed_key :: "speed \<Rightarrow> string" where
  "speed_key Fast = ''fast''"
| "speed_key Balanced = ''balanced''"
| "speed_key High = ''high''"
| "speed_key Maximum = ''maximum''"

fun accuracy_key :: "accuracy \<Rightarrow> string" where
  "accuracy_key Low = ''low''"
| "accuracy_key Medium = ''medium''"
| "accuracy_key High_accuracy = ''high''"
| "accuracy_key Maximum_accuracy = ''maximum''"

fun method_name :: "threshold_kind \<Rightarrow> string" where
  "method_name AdaptiveGaussian = ''Adaptive Gaussian''"
| "method_name AdaptiveMean = ''Adaptive Mean''"
| "method_name Otsu = ''Otsu''"
| "method_name Simple = ''Simple''"

definition as_settings :: "preprocessing_params \<Rightarrow> preprocessing_settings" where
  "as_settings p =
     \<lparr> s_blur_kernel = Some (p_blur p), s_threshold_method = Some (method_name (p_method p)),
       s_block_size = Some (p_block p), s_c_value = Some (p_c p) \<rparr>"

subsection \<open>Generation parameters of the neural engine\<close>

text \<open>
  The dictionary \<^verbatim>\<open>config\<close>: \<^verbatim>\<open>max_length\<close> and \<^verbatim>\<open>early_stopping\<close> are always present, the
  other keys may be absent.
\<close>

record generation_config =
  max_length :: int
  early_stopping :: bool
  num_beams :: "int option"
  do_sample :: "bool option"
  temperature :: "real option"
  top_p :: "real option"
  top_k :: "int option"

text \<open>\<^verbatim>\<open>TrOCRService._get_generation_config\<close> (lines 176-233).\<close>

definition get_generation_config :: "string \<Rightarrow> string \<Rightarrow> generation_config" where
  "get_generation_config processing_speed accuracy_level =
     (let config = \<lparr> max_length = 128, early_stopping = True, num_beams = None,
                      do_sample = None, temperature = None, top_p = None, top_k = None \<rparr>;
          config =
            (if processing_speed = ''fast'' then
               config\<lparr> num_beams := Some 1, do_sample := Some False, temperature := Some 1.0 \<rparr>
             else if processing_speed = ''balanced'' then
               config\<lparr> num_beams := Some 3, do_sample := Some False, temperature := Some 1.0 \<rparr>
             else if processing_speed = ''high'' then
               config\<lparr> num_beams := Some 5, do_sample := Some False, temperature := Some 1.0 \<rparr>
             else if processing_speed = ''maximum'' then
               config\<lparr> num_beams := Some 8, do_sample := Some True, temperature := Some 0.8,
                       top_p := Some 0.9, top_k := Some 50 \<rparr>
             else config)
      in
        if accuracy_level = ''low'' then config
        else if accuracy_level = ''medium'' then
          (if processing_speed \<notin> set [''fast'']
           then config\<lparr> num_beams := Some (max (dict_get (num_beams config) 1) 3) \<rparr>
           else config)
        else if accuracy_level = ''high'' then
          (if processing_speed \<notin> set [''fast'', ''balanced'']
           then config\<lparr> num_beams := Some (max (dict_get (num_beams config) 1) 5),
                        max_length := 150 \<rparr>
           else config)
        else if accuracy_level = ''maximum'' then
          config\<lparr> num_beams := Some (max (dict_get (num_beams config) 1) 8),
                  max_length := 200, do_sample := Some True, temperature := Some 0.7,
                  top_p := Some 0.9, top_k := Some 50 \<rparr>
        else config)"

subsection \<open>Strings and paths\<close>

text \<open>
  \<^verbatim>\<open>str.strip()\<close> on ASCII text: the white space characters are tab, line feed, vertical
  tab, form feed, carriage return, the four separators \<open>0x1C\<close> to \<open>0x1F\<close> and the space.
\<close>

definition isspace :: "char \<Rightarrow> bool" where
  "isspace ch = (of_char ch \<in> set [9, 10, 11, 12, 13, 28, 29, 30, 31, 32 :: nat])"

definition strip :: "string \<Rightarrow> string" where
  "strip s = rev (dropWhile isspace (rev (dropWhile isspace s)))"

text \<open>\<^verbatim>\<open>sep.join(parts)\<close>.\<close>

fun str_join :: "string \<Rightarrow> string list \<Rightarrow> string" where
  "str_join sep [] = []"
| "str_join sep [x] = x"
| "str_join sep (x # y # ys) = x @ sep @ str_join sep (y # ys)"

text \<open>
  \<^verbatim>\<open>str\<close> of a list of catalogue keys. A catalogue key has no quote, backslash or control
  character, so its \<^verbatim>\<open>repr\<close> is the key between single quotes. The functions are applied to
  catalogue keys only.
\<close>

definition repr_key :: "string \<Rightarrow> string" where
  "repr_key s = [CHR 0x27] @ s @ [CHR 0x27]"

definition repr_list :: "string list \<Rightarrow> string" where
  "repr_list xs = ''['' @ str_join '', '' (map repr_key xs) @ '']''"

text \<open>\<^verbatim>\<open>os.path.join\<close> and \<^verbatim>\<open>os.path.dirname\<close> of \<^verbatim>\<open>posixpath\<close>.\<close>

definition path_join :: "string \<Rightarrow> string \<Rightarrow> string" where
  "path_join a b =
     (if b \<noteq> [] \<and> hd b = CHR ''/'' then b
      else if a = [] \<or> last a = CHR ''/'' then a @ b
      else a @ ''/'' @ b)"

definition dirname :: "string \<Rightarrow> string" where
  "dirname p =
     (let head = rev (dropWhile (\<lambda>ch. ch \<noteq> CHR ''/'') (rev p))
      in if head \<noteq> [] \<and> \<not> list_all (\<lambda>ch. ch = CHR ''/'') head
         then rev (dropWhile (\<lambda>ch. ch = CHR ''/'') (rev head))
         else head)"

subsection \<open>Service state, file system, and the outcomes of external calls\<close>

text \<open>
  The attributes of \<^verbatim>\<open>TesseractService\<close> are \<open>model_loaded\<close> and \<open>status\<close>;
  \<^verbatim>\<open>TrOCRService\<close> has five more. A loaded processor or model is represented by the
  argument it was loaded from.
\<close>

record service_state =
  model_loaded :: bool
  status :: string

datatype handle = Loaded_from "string option"

record trocr_state = service_state +
  processor :: "handle option"
  model :: "handle option"
  device :: "string option"
  model_dir :: "string option"
  current_model_type :: "string option"

text \<open>\<^verbatim>\<open>self.available_models\<close> (trocr\_service.py, lines 21-46): key, repository, size.\<close>

definition available_models :: "(string \<times> string \<times> string) list" where
  "available_models =
     [(''small-handwritten'', ''microsoft/trocr-small-handwritten'', ''~150 MB''),
      (''small-printed'', ''microsoft/trocr-small-printed'', ''~150 MB''),
      (''base-handwritten'', ''microsoft/trocr-base-handwritten'', ''~450 MB''),
      (''base-printed'', ''microsoft/trocr-base-printed'', ''~450 MB''),
      (''large-handwritten'', ''microsoft/trocr-large-handwritten'', ''~1.4 GB''),
      (''large-printed'', ''microsoft/trocr-large-printed'', ''~1.4 GB'')]"

text \<open>
  The external operations the services perform, logged in the order they happen. The log is
  not in the source: it makes "which external step ran, and when" a value one can state
  properties of.
\<close>

datatype call =
  Call_save_uploaded_file
| Call_image_to_string
| Call_image_to_data
| Call_processor_from_pretrained "string option"
| Call_model_from_pretrained "string option"
| Call_model_generate
| Call_write_script string
| Call_subprocess_run string
| Call_remove string
| Call_rmtree string

text \<open>
  The state the two module-level service objects and the disk hold between requests. The
  file system is the set of paths that exist.
\<close>

record sys =
  tesseract_service :: service_state
  trocr_service :: trocr_state
  fs :: "string set"
  calls :: "call list"

datatype process_outcome =
  Completed int string string
| TimeoutExpired
| KeyboardInterrupt
| Other_exception string

text \<open>
  How lines 326-344 (\<^verbatim>\<open>with open(temp_script, "w") as f: f.write(...)\<close>) end: the script is
  written; \<^verbatim>\<open>open\<close> raises and creates nothing; or \<^verbatim>\<open>open\<close> creates the file and the write
  or the close raises.
\<close>

datatype write_outcome =
  Written
| Open_raises string
| Write_raises string

text \<open>
  What the world outside the repository answers during one request. An exception is \<open>Inl\<close>
  (or \<open>Some\<close> where the call returns nothing of interest) of its message.
  \<^item> \<open>backend_dir\<close>: \<^verbatim>\<open>os.path.dirname(os.path.dirname(current_dir))\<close>, the directory two
    levels above the service module.
  \<^item> \<open>validate_image_file\<close>, \<open>open_image\<close>, \<open>save_uploaded_file\<close>: the upload collaborators
    (\<^verbatim>\<open>validate_image_file(file)\<close>; \<^verbatim>\<open>file.read\<close>, \<^verbatim>\<open>Image.open\<close> and \<^verbatim>\<open>np.array\<close>;
    \<^verbatim>\<open>save_uploaded_file\<close>, which returns the path written).
  \<^item> \<open>image_to_string\<close>: \<^verbatim>\<open>pytesseract.image_to_string(pil_image, config=...)\<close>.
  \<^item> \<open>image_to_data\<close>: the list \<^verbatim>\<open>[int(conf) for conf in data['conf']]\<close> of
    \<^verbatim>\<open>pytesseract.image_to_data\<close>, or \<open>None\<close> when the call or a conversion raises.
  \<^item> \<open>elapsed\<close>: the difference of the two \<^verbatim>\<open>time.time()\<close> readings.
  \<^item> \<open>cuda_gpu_info\<close>: \<open>Some\<close> of the string \<^verbatim>\<open>gpu_info\<close> when
    \<^verbatim>\<open>torch.cuda.is_available()\<close>, else \<open>None\<close>.
  \<^item> \<open>processor_from_pretrained\<close>, \<open>model_from_pretrained\<close>, \<open>model_to_device\<close>: whether
    \<^verbatim>\<open>TrOCRProcessor.from_pretrained\<close>, \<^verbatim>\<open>VisionEncoderDecoderModel.from_pretrained\<close> and
    \<^verbatim>\<open>self.model.to(self.device)\<close> raise.
  \<^item> \<open>device_upper\<close>: the value of the expression \<^verbatim>\<open>self.device.upper()\<close> (line 133), or the
    exception it raises.
  \<^item> \<open>write_script\<close>: how writing the temporary script ends.
  \<^item> \<open>os_remove\<close>: whether \<^verbatim>\<open>os.remove(path)\<close> raises; the path then stays. The answer
    is the same each time the path is tried during the request.
  \<^item> \<open>shutil_rmtree\<close>: \<open>None\<close> when \<^verbatim>\<open>shutil.rmtree(dir)\<close> succeeds; when it raises, the
    message and what it left on the disk.
  \<^item> \<open>str_KeyError\<close>: \<^verbatim>\<open>str(e)\<close> of the \<^verbatim>\<open>KeyError\<close> of a catalogue lookup with the given key.
  \<^item> \<open>subprocess_run\<close>: how \<^verbatim>\<open>subprocess.run([sys.executable, temp_script], cwd=..., timeout=300)\<close>
    ends, and the file system the child process leaves behind.
  \<^item> \<open>recognise\<close>: \<^verbatim>\<open>self.processor(...)\<close>, \<^verbatim>\<open>self.model.generate(...)\<close> and
    \<^verbatim>\<open>batch_decode(...)[0]\<close> on the loaded model.
  \<^item> \<open>str_HTTPException\<close>: \<^verbatim>\<open>str(e)\<close> of a \<^verbatim>\<open>HTTPException(status_code, detail)\<close>.
\<close>

record 'img env =
  backend_dir :: string
  cv :: "'img cv2"
  validate_image_file :: bool
  open_image :: "string + 'img"
  save_uploaded_file :: "string + string"
  image_to_string :: "'img \<Rightarrow> string \<Rightarrow> string + string"
  image_to_data :: "'img \<Rightarrow> int list option"
  elapsed :: real
  cuda_gpu_info :: "string option"
  processor_from_pretrained :: "string option \<Rightarrow> string option"
  model_from_pretrained :: "string option \<Rightarrow> string option"
  model_to_device :: "string option"
  device_upper :: "string + string"
  write_script :: "string \<Rightarrow> write_outcome"
  os_remove :: "string \<Rightarrow> string option"
  shutil_rmtree :: "string \<Rightarrow> string set \<Rightarrow> (string \<times> string set) option"
  str_KeyError :: "string \<Rightarrow> string"
  subprocess_run :: "string \<Rightarrow> string \<Rightarrow> string set \<Rightarrow> process_outcome \<times> string set"
  recognise :: "handle option \<Rightarrow> 'img \<Rightarrow> generation_config \<Rightarrow> string + string"
  str_HTTPException :: "int \<Rightarrow> string \<Rightarrow> string"

definition log_call :: "call \<Rightarrow> sys \<Rightarrow> sys" where
  "log_call cl s = s\<lparr> calls := calls s @ [cl] \<rparr>"

subsection \<open>The deterministic engine\<close>

text \<open>The dictionary an engine returns, with the two keys the route may add.\<close>

record ocr_result =
  res_text :: string
  res_confidence :: real
  res_processing_time :: real
  res_fallback_used :: "bool option"
  res_fallback_reason :: "string option"

text \<open>\<^verbatim>\<open>TesseractService._get_ocr_settings\<close> (lines 124-157).\<close>

definition get_ocr_settings :: "string \<Rightarrow> string \<Rightarrow> string" where
  "get_ocr_settings processing_speed accuracy_level =
     (let config_parts =
            (if processing_speed = ''fast'' then [''--oem 1'', ''--psm 6'']
             else if processing_speed = ''balanced'' then [''--oem 3'', ''--psm 6'']
             else if processing_speed = ''high'' then [''--oem 3'', ''--psm 3'']
             else if processing_speed = ''maximum'' then [''--oem 3'', ''--psm 1'']
             else []);
          config_parts =
            (if accuracy_level = ''low'' then config_parts
             else if accuracy_level = ''medium'' then config_parts @ [''--tessdata-dir .'']
             else if accuracy_level = ''high'' then
               config_parts @ [''--tessdata-dir .'', ''--user-words'']
             else if accuracy_level = ''maximum'' then
               config_parts @ [''--tessdata-dir .'', ''--user-words'', ''--user-patterns'',
                 ''--c tessedit_char_whitelist=0123456789ABCDEFGHIJKLMNOPQRSTUVWXYZabcdefghijklmnopqrstuvwxyz'']
             else config_parts)
      in str_join '' '' config_parts)"

text \<open>
  Lines 196-202: the average of the positive per-token confidences, \<open>0\<close> when there is none,
  \<open>0.95\<close> when reading the confidences raises.
\<close>

definition avg_confidence :: "int list option \<Rightarrow> real" where
  "avg_confidence data_conf =
     (case data_conf of
        None \<Rightarrow> 0.95
      | Some conf \<Rightarrow>
          (let confidences = filter (\<lambda>cf. cf > 0) conf
           in if confidences \<noteq> []
              then real_of_int (sum_list confidences) / real (length confidences)
              else 0))"

text \<open>
  Lines 173 and 176-191 of \<^verbatim>\<open>TesseractService.extract_text\<close>: the image handed to
  pytesseract. With preprocessing, the values of the preset replace the caller's four
  values wherever the preset has the key; \<^verbatim>\<open>preprocess_image\<close> is called with five
  arguments, so \<^verbatim>\<open>simple_thresh_value\<close> has its default 127.
\<close>

definition tesseract_input ::
  "'img env \<Rightarrow> 'img \<Rightarrow> bool \<Rightarrow> int \<Rightarrow> string \<Rightarrow> int \<Rightarrow> int \<Rightarrow> string \<Rightarrow> string
     \<Rightarrow> string + 'img" where
  "tesseract_input env img use_preprocessing blur_kernel threshold_method block_size c_value
       processing_speed accuracy_level =
     (let preprocessing_settings = get_preprocessing_settings processing_speed accuracy_level
      in if use_preprocessing then
           let adjusted_blur = dict_get (s_blur_kernel preprocessing_settings) blur_kernel;
               adjusted_threshold =
                 dict_get (s_threshold_method preprocessing_settings) threshold_method;
               adjusted_block_size = dict_get (s_block_size preprocessing_settings) block_size;
               adjusted_c_value = dict_get (s_c_value preprocessing_settings) c_value
           in preprocess_image (cv env) img adjusted_blur adjusted_threshold
                adjusted_block_size adjusted_c_value 127
         else cvtColor (cv env) img COLOR_BGR2RGB)"

text \<open>
  \<^verbatim>\<open>TesseractService.extract_text\<close> (lines 159-213). Every exception inside the \<^verbatim>\<open>try\<close> is
  re-raised with the prefix of line 213.
\<close>

definition tesseract_extract_text ::
  "'img env \<Rightarrow> 'img \<Rightarrow> bool \<Rightarrow> int \<Rightarrow> string \<Rightarrow> int \<Rightarrow> int \<Rightarrow> string \<Rightarrow> string \<Rightarrow> sys
     \<Rightarrow> (string + ocr_result) \<times> sys" where
  "tesseract_extract_text env img use_preprocessing blur_kernel threshold_method block_size c_value
       processing_speed accuracy_level s =
     (if \<not> model_loaded (tesseract_service s)
      then (Inl ''Tesseract not properly initialized'', s)
      else
        let ocr_settings = get_ocr_settings processing_speed accuracy_level
        in case tesseract_input env img use_preprocessing blur_kernel threshold_method block_size
                  c_value processing_speed accuracy_level of
             Inl e \<Rightarrow> (Inl (''Tesseract OCR failed: '' @ e), s)
           | Inr pil_image \<Rightarrow>
               let s = log_call Call_image_to_string s in
               (case image_to_string env pil_image ocr_settings of
                  Inl e \<Rightarrow> (Inl (''Tesseract OCR failed: '' @ e), s)
                | Inr extracted_text \<Rightarrow>
                    let s = log_call Call_image_to_data s;
                        avg_confidence = avg_confidence (image_to_data env pil_image);
                        processing_time = elapsed env
                    in (Inr \<lparr> res_text = strip extracted_text,
                              res_confidence = avg_confidence / 100.0,
                              res_processing_time = processing_time,
                              res_fallback_used = None,
                              res_fallback_reason = None \<rparr>, s)))"

subsection \<open>The neural engine and its model lifecycle\<close>

definition set_status :: "string \<Rightarrow> sys \<Rightarrow> sys" where
  "set_status msg s = s\<lparr> trocr_service := (trocr_service s)\<lparr> status := msg \<rparr> \<rparr>"

text \<open>\<^verbatim>\<open>TrOCRService._get_model_path\<close> (lines 50-57).\<close>

definition get_model_path :: "'img env \<Rightarrow> string \<Rightarrow> string" where
  "get_model_path env model_type =
     (let python_ocr_dir = path_join (backend_dir env) ''python_ocr'';
          model_dir = path_join python_ocr_dir (''trocr-'' @ model_type)
      in model_dir)"

definition processor_files :: "string list" where
  "processor_files = [''tokenizer.json'', ''tokenizer_config.json'', ''preprocessor_config.json'']"

definition model_files :: "string list" where
  "model_files = [''config.json'', ''pytorch_model.bin'']"

text \<open>\<^verbatim>\<open>TrOCRService._check_local_model\<close> (lines 59-71).\<close>

definition check_local_model :: "'img env \<Rightarrow> string \<Rightarrow> string set \<Rightarrow> bool \<times> string option" where
  "check_local_model env model_type files =
     (let model_dir = get_model_path env model_type
      in if model_dir \<in> files then
           let processor_exists = list_all (\<lambda>f. path_join model_dir f \<in> files) processor_files;
               model_exists = list_all (\<lambda>f. path_join model_dir f \<in> files) model_files
           in (processor_exists \<and> model_exists, Some model_dir)
         else (False, None))"

text \<open>
  The handler of \<^verbatim>\<open>_load_model\<close> (lines 135-137); assignments made before the exception
  stay.
\<close>

definition load_failed :: "string \<Rightarrow> string \<Rightarrow> sys \<Rightarrow> sys" where
  "load_failed model_type e s =
     s\<lparr> trocr_service := (trocr_service s)
          \<lparr> status := ''Error loading TrOCR '' @ model_type @ '' model: '' @ e,
            model_loaded := False \<rparr> \<rparr>"

text \<open>
  Lines 116-119 and 123-126 with \<open>src\<close> the directory or the repository, then lines
  128-133. \<^verbatim>\<open>model_loaded\<close> is set on line 132, before the status string of line 133 is
  built.
\<close>

definition load_from :: "'img env \<Rightarrow> string \<Rightarrow> string option \<Rightarrow> string \<Rightarrow> sys \<Rightarrow> sys" where
  "load_from env model_type src gpu_info s =
     (let s = log_call (Call_processor_from_pretrained src) s in
      case processor_from_pretrained env src of
        Some e \<Rightarrow> load_failed model_type e s
      | None \<Rightarrow>
          (let s = s\<lparr> trocr_service := (trocr_service s)\<lparr> processor := Some (Loaded_from src) \<rparr> \<rparr>;
               s = log_call (Call_model_from_pretrained src) s
           in case model_from_pretrained env src of
                Some e \<Rightarrow> load_failed model_type e s
              | None \<Rightarrow>
                  (let s = s\<lparr> trocr_service := (trocr_service s)
                               \<lparr> model := Some (Loaded_from src),
                                 model_dir := src,
                                 current_model_type := Some model_type,
                                 device := Some (if cuda_gpu_info env \<noteq> None
                                                 then ''cuda'' else ''cpu'') \<rparr> \<rparr>
                   in case model_to_device env of
                        Some e \<Rightarrow> load_failed model_type e s
                      | None \<Rightarrow>
                          (let s = s\<lparr> trocr_service := (trocr_service s)
                                       \<lparr> model_loaded := True \<rparr> \<rparr>
                           in case device_upper env of
                                Inl e \<Rightarrow> load_failed model_type e s
                              | Inr upper \<Rightarrow>
                                  set_status (''Ready - '' @ model_type @ '' - Using '' @ upper
                                                @ '' - '' @ gpu_info) s))))"

text \<open>
  \<^verbatim>\<open>TrOCRService._load_model\<close> (lines 91-137). A key that is not in the catalogue raises
  \<^verbatim>\<open>KeyError\<close> on line 108.
\<close>

definition load_model :: "'img env \<Rightarrow> string \<Rightarrow> sys \<Rightarrow> sys" where
  "load_model env model_type s =
     (let gpu_info = (case cuda_gpu_info env of Some info \<Rightarrow> info | None \<Rightarrow> ''Not available'')
      in case map_of available_models model_type of
           None \<Rightarrow> load_failed model_type (str_KeyError env model_type) s
         | Some (model_repo, size_label) \<Rightarrow>
             let (local_exists, model_dir) = check_local_model env model_type (fs s)
             in if local_exists then
                  load_from env model_type model_dir gpu_info
                    (set_status (''Loading TrOCR '' @ model_type @ '' model from local cache...'') s)
                else
                  load_from env model_type (Some model_repo) gpu_info
                    (set_status (''Downloading TrOCR '' @ model_type
                                   @ '' model from Hugging Face...'') s))"

text \<open>
  \<^verbatim>\<open>TrOCRService.extract_text\<close> (lines 235-284). It passes the caller's four preprocessing
  values on, and \<^verbatim>\<open>simple_thresh_value\<close> has its default 127.
\<close>

definition trocr_extract_text ::
  "'img env \<Rightarrow> 'img \<Rightarrow> bool \<Rightarrow> int \<Rightarrow> string \<Rightarrow> int \<Rightarrow> int \<Rightarrow> string \<Rightarrow> string \<Rightarrow> sys
     \<Rightarrow> (string + ocr_result) \<times> sys" where
  "trocr_extract_text env img use_preprocessing blur_kernel threshold_method block_size c_value
       processing_speed accuracy_level s =
     (if \<not> model_loaded (trocr_service s)
      then (Inl ''TrOCR model not properly loaded'', s)
      else
        let pil_image =
              (if use_preprocessing
               then preprocess_image (cv env) img blur_kernel threshold_method block_size c_value 127
               else cvtColor (cv env) img COLOR_BGR2RGB)
        in case pil_image of
             Inl e \<Rightarrow> (Inl (''TrOCR processing failed: '' @ e), s)
           | Inr pil_image \<Rightarrow>
               let generation_config = get_generation_config processing_speed accuracy_level;
                   s = log_call Call_model_generate s
               in (case recognise env (model (trocr_service s)) pil_image generation_config of
                     Inl e \<Rightarrow> (Inl (''TrOCR processing failed: '' @ e), s)
                   | Inr extracted_text \<Rightarrow>
                       (Inr \<lparr> res_text = strip extracted_text,
                              res_confidence = 0.95,
                              res_processing_time = elapsed env,
                              res_fallback_used = None,
                              res_fallback_reason = None \<rparr>, s)))"

text \<open>The dictionary \<^verbatim>\<open>download_model\<close> returns.\<close>

record download_result =
  dl_success :: bool
  dl_message :: string
  dl_status :: string
  dl_output :: "string option"
  dl_error :: "string option"

text \<open>
  Lines 357-358, repeated in the three inner handlers: remove the temporary script if it
  exists. \<open>Some e\<close> is the exception of \<^verbatim>\<open>os.remove\<close>.
\<close>

definition remove_if_exists :: "'img env \<Rightarrow> string \<Rightarrow> sys \<Rightarrow> string option \<times> sys" where
  "remove_if_exists env path s =
     (if path \<in> fs s then
        let s = log_call (Call_remove path) s
        in case os_remove env path of
             None \<Rightarrow> (None, s\<lparr> fs := fs s - {path} \<rparr>)
           | Some e \<Rightarrow> (Some e, s)
      else (None, s))"

text \<open>The returns of the three inner handlers (lines 385-415) and of lines 369-378.\<close>

definition download_failed :: "string \<Rightarrow> string option \<Rightarrow> string option \<Rightarrow> sys \<Rightarrow> download_result \<times> sys" where
  "download_failed error_msg out err s =
     (let s = set_status (''Error: '' @ error_msg) s
      in (\<lparr> dl_success = False, dl_message = error_msg, dl_status = status (trocr_service s),
             dl_output = out, dl_error = err \<rparr>, s))"

text \<open>The outer handler (lines 417-424). It removes nothing.\<close>

definition outer_handler :: "string \<Rightarrow> sys \<Rightarrow> download_result \<times> sys" where
  "outer_handler e s =
     (let error_msg = ''Model download failed: '' @ e;
          s = set_status error_msg s
      in (\<lparr> dl_success = False, dl_message = error_msg, dl_status = status (trocr_service s),
             dl_output = None, dl_error = None \<rparr>, s))"

text \<open>
  An inner handler: the clean-up, then the return of a failure. An exception of the clean-up
  leaves the inner \<^verbatim>\<open>try\<close> statement and is caught by the outer handler.
\<close>

definition inner_handler ::
  "'img env \<Rightarrow> string \<Rightarrow> string \<Rightarrow> sys \<Rightarrow> download_result \<times> sys" where
  "inner_handler env temp_script error_msg s =
     (case remove_if_exists env temp_script s of
        (Some e, s) \<Rightarrow> outer_handler e s
      | (None, s) \<Rightarrow> download_failed error_msg None None s)"

text \<open>Lines 320-325: the paths of the download script and of the temporary script.\<close>

definition download_script_path :: "'img env \<Rightarrow> string" where
  "download_script_path env =
     path_join (path_join (backend_dir env) ''python_ocr'') ''download_model.py''"

definition temp_script_path :: "'img env \<Rightarrow> string" where
  "temp_script_path env =
     path_join (path_join (backend_dir env) ''python_ocr'') ''temp_download.py''"

text \<open>
  Lines 346-415: the inner \<^verbatim>\<open>try\<close> statement, entered with the temporary script on the disk.
  An exception of the clean-up of line 358 is an \<^verbatim>\<open>Exception\<close> inside the \<^verbatim>\<open>try\<close> body, so
  the handler of lines 404-415 takes it.
\<close>

definition run_download :: "'img env \<Rightarrow> string \<Rightarrow> sys \<Rightarrow> download_result \<times> sys" where
  "run_download env model_type s =
     (let download_script = download_script_path env;
          temp_script = temp_script_path env;
          s = log_call (Call_subprocess_run temp_script) s;
          (outcome, files) = subprocess_run env temp_script (dirname download_script) (fs s);
          s = s\<lparr> fs := files \<rparr>
      in case outcome of
           Completed returncode out err \<Rightarrow>
             (case remove_if_exists env temp_script s of
                (Some e, s) \<Rightarrow>
                  inner_handler env temp_script (''Download script execution failed: '' @ e) s
              | (None, s) \<Rightarrow>
                  if returncode = 0 then
                    let s = load_model env model_type s
                    in (\<lparr> dl_success = True,
                           dl_message = ''Model '' @ model_type
                                          @ '' downloaded and loaded successfully'',
                           dl_status = status (trocr_service s),
                           dl_output = Some out, dl_error = None \<rparr>, s)
                  else
                    download_failed (''Download script failed: '' @ err) (Some out) (Some err) s)
         | TimeoutExpired \<Rightarrow>
             inner_handler env temp_script ''Model download timed out after 5 minutes'' s
         | KeyboardInterrupt \<Rightarrow>
             inner_handler env temp_script ''Model download was interrupted'' s
         | Other_exception e \<Rightarrow>
             inner_handler env temp_script (''Download script execution failed: '' @ e) s)"

text \<open>
  \<^verbatim>\<open>TrOCRService.download_model\<close> (lines 286-424). An exception of writing the temporary
  script is raised outside the inner \<^verbatim>\<open>try\<close> statement, so the outer handler takes it.
\<close>

definition download_model :: "'img env \<Rightarrow> string \<Rightarrow> sys \<Rightarrow> download_result \<times> sys" where
  "download_model env model_type s =
     (if map_of available_models model_type = None then
        (\<lparr> dl_success = False,
           dl_message = ''Invalid model type: '' @ model_type @ ''. Available types: ''
                          @ repr_list (map fst available_models),
           dl_status = ''Error'', dl_output = None, dl_error = None \<rparr>, s)
      else if model_loaded (trocr_service s)
              \<and> current_model_type (trocr_service s) = Some model_type then
        (\<lparr> dl_success = True,
           dl_message = ''Model '' @ model_type @ '' already loaded'',
           dl_status = status (trocr_service s), dl_output = None, dl_error = None \<rparr>, s)
      else
        let (local_exists, model_dir) = check_local_model env model_type (fs s)
        in if local_exists then
             let s = set_status (''Local '' @ model_type @ '' model found, loading...'') s;
                 s = load_model env model_type s
             in (\<lparr> dl_success = True,
                    dl_message = ''Model '' @ model_type @ '' loaded from local cache'',
                    dl_status = status (trocr_service s), dl_output = None, dl_error = None \<rparr>, s)
           else
             let s = set_status (''Downloading TrOCR '' @ model_type
                                   @ '' model... This may take several minutes.'') s;
                 temp_script = temp_script_path env;
                 s = log_call (Call_write_script temp_script) s
             in case write_script env temp_script of
                  Open_raises e \<Rightarrow> outer_handler e s
                | Write_raises e \<Rightarrow> outer_handler e (s\<lparr> fs := insert temp_script (fs s) \<rparr>)
                | Written \<Rightarrow> run_download env model_type (s\<lparr> fs := insert temp_script (fs s) \<rparr>))"

subsection \<open>The routes\<close>

datatype json =
  JNull
| JBool bool
| JNumber real
| JInteger int
| JString string
| JObject "(string \<times> json) list"

datatype exc = Exception string | HTTPException int string

text \<open>The form fields of \<^verbatim>\<open>/extract-text\<close> (ocr\_routes.py, lines 22-36); the uploaded file
  is seen through the collaborators of the environment.\<close>

record request =
  req_ocr_type :: string
  req_model_type :: string
  req_use_preprocessing :: bool
  req_blur_kernel :: int
  req_threshold_method :: string
  req_block_size :: int
  req_c_value :: int
  req_primary_language :: string
  req_language_detection :: bool
  req_custom_dictionary :: string
  req_processing_speed :: string
  req_accuracy_level :: string

definition str_exc :: "'img env \<Rightarrow> exc \<Rightarrow> string" where
  "str_exc env e =
     (case e of Exception msg \<Rightarrow> msg | HTTPException code detail \<Rightarrow> str_HTTPException env code detail)"

definition raised :: "(string + 'a) \<times> sys \<Rightarrow> (exc + 'a) \<times> sys" where
  "raised r = (case r of (Inl e, s) \<Rightarrow> (Inl (Exception e), s) | (Inr x, s) \<Rightarrow> (Inr x, s))"

text \<open>
  Lines 55-116 of \<^verbatim>\<open>extract_text\<close>: the choice of the engine, the loading of the requested
  model, and the fallback.
\<close>

definition select_and_run ::
  "'img env \<Rightarrow> request \<Rightarrow> 'img \<Rightarrow> sys \<Rightarrow> (exc + ocr_result) \<times> sys" where
  "select_and_run env req image_cv s =
     (if req_ocr_type req = ''tesseract'' then
        raised (tesseract_extract_text env image_cv (req_use_preprocessing req)
                  (req_blur_kernel req) (req_threshold_method req) (req_block_size req)
                  (req_c_value req) (req_processing_speed req) (req_accuracy_level req) s)
      else if req_ocr_type req = ''trocr'' then
        (if \<not> model_loaded (trocr_service s)
            \<or> current_model_type (trocr_service s) \<noteq> Some (req_model_type req) then
           let (load_result, s) = download_model env (req_model_type req) s
           in if \<not> dl_success load_result then
                (case tesseract_extract_text env image_cv (req_use_preprocessing req)
                        (req_blur_kernel req) (req_threshold_method req) (req_block_size req)
                        (req_c_value req) (req_processing_speed req) (req_accuracy_level req) s of
                   (Inl e, s) \<Rightarrow> (Inl (Exception e), s)
                 | (Inr result, s) \<Rightarrow>
                     (Inr (result
                        \<lparr> res_fallback_used := Some True,
                          res_fallback_reason :=
                            Some (''TrOCR model '' @ req_model_type req @ '' failed to load: ''
                                    @ dl_message load_result) \<rparr>), s))
              else
                raised (trocr_extract_text env image_cv (req_use_preprocessing req)
                          (req_blur_kernel req) (req_threshold_method req) (req_block_size req)
                          (req_c_value req) (req_processing_speed req) (req_accuracy_level req) s)
         else
           raised (trocr_extract_text env image_cv (req_use_preprocessing req)
                     (req_blur_kernel req) (req_threshold_method req) (req_block_size req)
                     (req_c_value req) (req_processing_speed req) (req_accuracy_level req) s))
      else
        (Inl (HTTPException 400 (''Invalid OCR type. Use 'tesseract' or 'trocr'' @ [CHR 0x27])), s))"

text \<open>
  Lines 118-138: the body of the response. \<^verbatim>\<open>result.get("confidence", 0.95)\<close> and
  \<^verbatim>\<open>result.get("processing_time", 0)\<close> find their keys, which both engines set.
\<close>

definition response_content :: "request \<Rightarrow> string \<Rightarrow> ocr_result \<Rightarrow> (string \<times> json) list" where
  "response_content req file_path result =
     [(''success'', JBool True),
      (''text'', JString (res_text result)),
      (''confidence'', JNumber (res_confidence result)),
      (''processing_time'', JNumber (res_processing_time result)),
      (''file_path'', JString file_path),
      (''ocr_type'', JString (req_ocr_type req)),
      (''model_type'',
         if req_ocr_type req = ''trocr'' then JString (req_model_type req) else JNull),
      (''preprocessing_used'', JBool (req_use_preprocessing req)),
      (''settings_used'', JObject
         [(''primary_language'', JString (req_primary_language req)),
          (''language_detection'', JBool (req_language_detection req)),
          (''custom_dictionary'', JString (req_custom_dictionary req)),
          (''processing_speed'', JString (req_processing_speed req)),
          (''accuracy_level'', JString (req_accuracy_level req)),
          (''blur_kernel'', JInteger (req_blur_kernel req)),
          (''threshold_method'', JString (req_threshold_method req)),
          (''block_size'', JInteger (req_block_size req)),
          (''c_value'', JInteger (req_c_value req))])]"

text \<open>
  Lines 40-116 of \<^verbatim>\<open>extract_text\<close>, before the handler: validation, decoding, saving of the
  upload (which creates the directory \<^verbatim>\<open>uploads\<close> and the file), then the engine.
\<close>

definition extract_text_body ::
  "'img env \<Rightarrow> request \<Rightarrow> sys \<Rightarrow> (exc + (string \<times> json) list) \<times> sys" where
  "extract_text_body env req s =
     (if \<not> validate_image_file env then (Inl (HTTPException 400 ''Invalid image file''), s)
      else
        case and_then (open_image env) (\<lambda>image. cvtColor (cv env) image COLOR_RGB2BGR) of
          Inl e \<Rightarrow> (Inl (Exception e), s)
        | Inr image_cv \<Rightarrow>
            (let s = log_call Call_save_uploaded_file s
             in case save_uploaded_file env of
                  Inl e \<Rightarrow> (Inl (Exception e), s)
                | Inr file_path \<Rightarrow>
                    (let s = s\<lparr> fs := insert file_path (insert ''uploads'' (fs s)) \<rparr>
                     in case select_and_run env req image_cv s of
                          (Inl e, s) \<Rightarrow> (Inl e, s)
                        | (Inr result, s) \<Rightarrow>
                            (Inr (response_content req file_path result), s))))"

text \<open>
  \<^verbatim>\<open>extract_text\<close> (lines 21-141). The handler of lines 140-141 catches every exception of
  the body, the two \<^verbatim>\<open>HTTPException(400)\<close> included, and raises \<^verbatim>\<open>HTTPException(500)\<close>.
\<close>

definition extract_text ::
  "'img env \<Rightarrow> request \<Rightarrow> sys \<Rightarrow> (exc + (string \<times> json) list) \<times> sys" where
  "extract_text env req s =
     (case extract_text_body env req s of
        (Inl e, s) \<Rightarrow> (Inl (HTTPException 500 (''OCR processing failed: '' @ str_exc env e)), s)
      | (Inr content, s) \<Rightarrow> (Inr content, s))"

text \<open>What a \<^verbatim>\<open>shutil.rmtree\<close> that succeeds leaves: the directory and every path below it
  are gone.\<close>

definition rmtree :: "string \<Rightarrow> string set \<Rightarrow> string set" where
  "rmtree dir files = Set.filter (\<lambda>path. path \<noteq> dir \<and> \<not> prefix (dir @ ''/'') path) files"


subsection \<open>The cache check of the specification\<close>

text \<open>
  Written from the words of section 4.5: a model type is present iff all files of the
  processor-file set and of the model-file set exist under its local directory (which
  therefore exists).
\<close>

definition cache_present :: "'img env \<Rightarrow> string \<Rightarrow> string set \<Rightarrow> bool" where
  "cache_present env model_type files =
     (get_model_path env model_type \<in> files
      \<and> list_all (\<lambda>f. path_join (get_model_path env model_type) f \<in> files)
            (processor_files @ model_files))"

subsection \<open>What the specification claims of the generation parameters\<close>

text \<open>Written from the words of section 4.2: beam width by speed, output length by accuracy.\<close>

fun claimed_beam_width :: "speed \<Rightarrow> int" where
  "claimed_beam_width Fast = 1"
| "claimed_beam_width Balanced = 3"
| "claimed_beam_width High = 5"
| "claimed_beam_width Maximum = 8"

fun claimed_max_length :: "accuracy \<Rightarrow> int" where
  "claimed_max_length Low = 128"
| "claimed_max_length Medium = 128"
| "claimed_max_length High_accuracy = 150"
| "claimed_max_length Maximum_accuracy = 200"

subsection \<open>A concrete environment and state\<close>

text \<open>
  An environment in which every external call succeeds, and the state right after start-up
  with Tesseract found (\<^verbatim>\<open>TesseractService.__init__\<close>, \<^verbatim>\<open>TrOCRService.__init__\<close>) on an empty
  disk. Concrete runs below change single fields of them.
\<close>

definition quiet_env :: "recorded_image env" where
  "quiet_env =
     \<lparr> backend_dir = ''/srv/backend'',
       cv = recording_cv2,
       validate_image_file = True,
       open_image = Inr Source_image,
       save_uploaded_file = Inr ''uploads/note.png'',
       image_to_string = (\<lambda>i cfg. Inr ''hello world ''),
       image_to_data = (\<lambda>i. Some [-1, 96, 0, 90]),
       elapsed = 1,
       cuda_gpu_info = None,
       processor_from_pretrained = (\<lambda>src. None),
       model_from_pretrained = (\<lambda>src. None),
       model_to_device = None,
       device_upper = Inr ''CPU'',
       write_script = (\<lambda>path. Written),
       os_remove = (\<lambda>path. None),
       shutil_rmtree = (\<lambda>dir files. None),
       str_KeyError = repr_key,
       subprocess_run = (\<lambda>script cwd files. (Completed 0 [] [], files)),
       recognise = (\<lambda>h i cfg. Inr ''hello''),
       str_HTTPException = (\<lambda>code detail. detail) \<rparr>"

definition initial_sys :: sys where
  "initial_sys =
     \<lparr> tesseract_service = \<lparr> model_loaded = True, status = ''Ready'' \<rparr>,
       trocr_service =
         \<lparr> model_loaded = False,
           status = ''Not loaded - Use download_models() to load TrOCR'',
           processor = None, model = None, device = None, model_dir = None,
           current_model_type = None \<rparr>,
       fs = {},
       calls = [] \<rparr>"

definition sample_request :: request where
  "sample_request =
     \<lparr> req_ocr_type = ''trocr'',
       req_model_type = ''large-handwritten'',
       req_use_preprocessing = True,
       req_blur_kernel = 5,
       req_threshold_method = ''Adaptive Gaussian'',
       req_block_size = 11,
       req_c_value = 2,
       req_primary_language = ''eng'',
       req_language_detection = True,
       req_custom_dictionary = [],
       req_processing_speed = ''balanced'',
       req_accuracy_level = ''high'' \<rparr>"

text \<open>A disk that holds the complete local copy of the model type \<^verbatim>\<open>base-printed\<close>.\<close>

definition cached_sys :: sys where
  "cached_sys =
     initial_sys
       \<lparr> fs := {''/srv/backend/python_ocr/trocr-base-printed'',
                 ''/srv/backend/python_ocr/trocr-base-printed/tokenizer.json'',
                 ''/srv/backend/python_ocr/trocr-base-printed/tokenizer_config.json'',
                 ''/srv/backend/python_ocr/trocr-base-printed/preprocessor_config.json'',
                 ''/srv/backend/python_ocr/trocr-base-printed/config.json'',
                 ''/srv/backend/python_ocr/trocr-base-printed/pytorch_model.bin''} \<rparr>"

text \<open>
  Variations: the child process runs into the timeout; pytesseract reports no positive
  confidence; the disk is full when the temporary script is written; loading a processor
  raises; \<^verbatim>\<open>shutil.rmtree\<close> is refused; the default model is resident and its directory
  exists; the model \<^verbatim>\<open>base-printed\<close> is resident and cached; requests with a model type and
  an engine that do not exist, for the cached model, and with preprocessing values no
  pipeline accepts.
\<close>

definition timeout_env :: "recorded_image env" where
  "timeout_env = quiet_env\<lparr> subprocess_run := (\<lambda>script cwd files. (TimeoutExpired, files)) \<rparr>"

definition no_signal_env :: "recorded_image env" where
  "no_signal_env = quiet_env\<lparr> image_to_data := (\<lambda>i. Some [-1, 0]) \<rparr>"

definition resident_sys :: sys where
  "resident_sys =
     initial_sys
       \<lparr> trocr_service := (trocr_service initial_sys)
            \<lparr> model_loaded := True, current_model_type := Some ''large-handwritten'' \<rparr>,
         fs := {''/srv/backend/python_ocr'',
                ''/srv/backend/python_ocr/trocr-large-handwritten'',
                ''/srv/backend/python_ocr/trocr-large-handwritten/config.json''} \<rparr>"

definition unknown_model_request :: request where
  "unknown_model_request = sample_request\<lparr> req_model_type := ''bogus'' \<rparr>"

definition unknown_engine_request :: request where
  "unknown_engine_request = sample_request\<lparr> req_ocr_type := ''easyocr'' \<rparr>"

definition disk_full_env :: "recorded_image env" where
  "disk_full_env =
     quiet_env\<lparr> write_script := (\<lambda>path. Write_raises ''[Errno 28] No space left on device'') \<rparr>"

definition broken_model_env :: "recorded_image env" where
  "broken_model_env =
     quiet_env\<lparr> processor_from_pretrained := (\<lambda>src. Some ''Unable to load the tokenizer'') \<rparr>"



definition cached_model_request :: request where
  "cached_model_request = sample_request\<lparr> req_model_type := ''base-printed'' \<rparr>"

definition bad_parameters_request :: request where
  "bad_parameters_request =
     sample_request\<lparr> req_ocr_type := ''tesseract'', req_blur_kernel := -4,
                     req_threshold_method := ''Sauvola'', req_block_size := 10 \<rparr>"

section \<open>Properties\<close>

subsection \<open>Preprocessing pipeline\<close>

lemma preprocess_image_steps:
  "preprocess_image lib img k m b c v =
     and_then (cvtColor lib img COLOR_BGR2GRAY) (\<lambda>g.
       and_then (GaussianBlur lib g (if even k then k + 1 else k, if even k then k + 1 else k) 0)
         (\<lambda>bl. threshold_step lib bl m b c v))"
  by (simp add: preprocess_image_def threshold_step_def Let_def even_iff_mod_2_eq_zero)

text \<open>
  Claim C7, as amended. The kernel handed to \<^verbatim>\<open>GaussianBlur\<close> is the input plus one for an
  even input and the input itself for an odd one, so it is always odd; it is at least 1
  when the input is not negative. (For a negative input it stays negative.)
\<close>

theorem blur_kernel_coerced_to_odd:
  "let k' = (if even k then k + 1 else k)
   in preprocess_image lib img k m b c v =
        and_then (cvtColor lib img COLOR_BGR2GRAY) (\<lambda>g.
          and_then (GaussianBlur lib g (k', k') 0) (\<lambda>bl. threshold_step lib bl m b c v))
      \<and> odd k' \<and> (0 \<le> k \<longrightarrow> 1 \<le> k')"
  unfolding Let_def using preprocess_image_steps [of lib img k m b c v] by (auto elim: oddE)

theorem blur_kernel_coerced_to_odd_witness:
  "preprocess_image recording_cv2 Source_image 4 ''Otsu'' 11 2 127 =
     and_then (cvtColor recording_cv2 Source_image COLOR_BGR2GRAY) (\<lambda>g.
       and_then (GaussianBlur recording_cv2 g (5, 5) 0)
         (\<lambda>bl. threshold_step recording_cv2 bl ''Otsu'' 11 2 127))
   \<and> odd (5::int) \<and> (0::int) \<le> 4 \<and> (1::int) \<le> 5"
  using blur_kernel_coerced_to_odd [of 4 recording_cv2 Source_image "''Otsu''" 11 2 127]
  by simp

text \<open>
  Claim C7 as stated fails: for the even input \<open>-4\<close> the pipeline blurs with the kernel
  \<open>(-3, -3)\<close>, which is odd but not at least 1.
\<close>

theorem blur_kernel_at_least_one_counterexample:
  "preprocess_image recording_cv2 Source_image (-4) ''Otsu'' 11 2 127 =
     Inr (Thresholded (Blurred (CvtColor Source_image COLOR_BGR2GRAY) (-3, -3) 0)
            0 255 THRESH_BINARY_OTSU)
   \<and> \<not> (1::int) \<le> -3"
  by (simp add: preprocess_image_def recording_cv2_def and_then_def)

text \<open>
  Claim C10. A threshold method name other than \<^verbatim>\<open>Adaptive Gaussian\<close>, \<^verbatim>\<open>Adaptive Mean\<close> and
  \<^verbatim>\<open>Otsu\<close> is not rejected: the pipeline ends with the simple global threshold at
  \<^verbatim>\<open>simple_thresh_value\<close>, exactly as for the name \<^verbatim>\<open>Simple\<close>.
\<close>

theorem unknown_threshold_method_is_simple:
  assumes "m \<notin> {''Adaptive Gaussian'', ''Adaptive Mean'', ''Otsu''}"
  shows "preprocess_image lib img k m b c v =
           and_then (cvtColor lib img COLOR_BGR2GRAY) (\<lambda>g.
             and_then
               (GaussianBlur lib g (if even k then k + 1 else k, if even k then k + 1 else k) 0)
               (\<lambda>bl. threshold lib bl v 255 THRESH_BINARY))
         \<and> preprocess_image lib img k m b c v = preprocess_image lib img k ''Simple'' b c v"
  using assms by (simp add: preprocess_image_steps threshold_step_def)

theorem unknown_threshold_method_is_simple_witness:
  "''Sauvola'' \<notin> {''Adaptive Gaussian'', ''Adaptive Mean'', ''Otsu''}
   \<and> preprocess_image recording_cv2 Source_image 5 ''Sauvola'' 11 2 127 =
       Inr (Thresholded (Blurred (CvtColor Source_image COLOR_BGR2GRAY) (5, 5) 0)
              127 255 THRESH_BINARY)"
proof -
  have h: "''Sauvola'' \<notin> {''Adaptive Gaussian'', ''Adaptive Mean'', ''Otsu''}"
    by simp
  show ?thesis
    using h unknown_threshold_method_is_simple [OF h, of recording_cv2 Source_image 5 11 2 127]
    by (simp add: recording_cv2_def and_then_def)
qed

subsection \<open>Presets\<close>

text \<open>
  Claim C1. The resolver is a function, so equal inputs give equal outputs. On each of the
  sixteen pairs of the grid it returns all four settings, and they are those of the policy
  table of section 4.2 with the accuracy overlay applied; the two examples of the claim
  hold.
\<close>

theorem preset_resolution_matches_policy:
  "get_preprocessing_settings (speed_key sp) (accuracy_key ac) = as_settings (resolve sp ac)
   \<and> get_preprocessing_settings ''fast'' ''low'' =
        \<lparr> s_blur_kernel = Some 3, s_threshold_method = Some ''Simple'',
          s_block_size = Some 7, s_c_value = Some 1 \<rparr>
   \<and> get_preprocessing_settings ''maximum'' ''maximum'' =
        \<lparr> s_blur_kernel = Some 9, s_threshold_method = Some ''Otsu'',
          s_block_size = Some 19, s_c_value = Some 4 \<rparr>"
  by (cases sp; cases ac)
     (simp_all add: get_preprocessing_settings_def as_settings_def resolve_def dict_get_def)

theorem preset_resolution_matches_policy_witness:
  "get_preprocessing_settings ''high'' ''high'' =
     \<lparr> s_blur_kernel = Some 7, s_threshold_method = Some ''Adaptive Gaussian'',
       s_block_size = Some 15, s_c_value = Some 3 \<rparr>"
  using preset_resolution_matches_policy [of High High_accuracy]
  by (simp add: as_settings_def resolve_def)

text \<open>
  Claim C6, as amended. On the grid: the beam width is 1, 3, 5, 8 by speed, except that
  accuracy \<^verbatim>\<open>maximum\<close> makes it 8 at every speed; sampling with top-p 0.9 and top-k 50 is on
  exactly when speed or accuracy is \<^verbatim>\<open>maximum\<close>, with temperature 0.7 at accuracy
  \<^verbatim>\<open>maximum\<close>, else 0.8 at speed \<^verbatim>\<open>maximum\<close>, else 1.0; the output length is 200 at accuracy
  \<^verbatim>\<open>maximum\<close>, 150 at accuracy \<^verbatim>\<open>high\<close> when the speed is \<^verbatim>\<open>high\<close> or \<^verbatim>\<open>maximum\<close>, and 128
  otherwise.
\<close>

theorem generation_config_on_grid:
  "let g = get_generation_config (speed_key sp) (accuracy_key ac);
       sampling = (sp = Maximum \<or> ac = Maximum_accuracy)
   in num_beams g = Some (if ac = Maximum_accuracy then 8 else claimed_beam_width sp)
    \<and> do_sample g = Some sampling
    \<and> top_p g = (if sampling then Some 0.9 else None)
    \<and> top_k g = (if sampling then Some 50 else None)
    \<and> temperature g =
        Some (if ac = Maximum_accuracy then 0.7 else if sp = Maximum then 0.8 else 1.0)
    \<and> max_length g =
        (if ac = Maximum_accuracy then 200
         else if ac = High_accuracy \<and> (sp = High \<or> sp = Maximum) then 150 else 128)"
  by (cases sp; cases ac) (simp_all add: get_generation_config_def dict_get_def)

theorem generation_config_on_grid_witness:
  "num_beams (get_generation_config ''balanced'' ''high'') = Some 3
   \<and> do_sample (get_generation_config ''balanced'' ''high'') = Some False
   \<and> top_p (get_generation_config ''balanced'' ''high'') = None
   \<and> max_length (get_generation_config ''balanced'' ''high'') = 128"
  using generation_config_on_grid [of Balanced High_accuracy] by (simp add: Let_def)

text \<open>
  Claim C6 as stated fails: at (\<^verbatim>\<open>fast\<close>, \<^verbatim>\<open>high\<close>) the output length is 128, not the 150
  claimed for accuracy \<^verbatim>\<open>high\<close>, and at (\<^verbatim>\<open>fast\<close>, \<^verbatim>\<open>maximum\<close>) the beam width is 8, not the 1
  claimed for speed \<^verbatim>\<open>fast\<close>.
\<close>

theorem generation_config_counterexample:
  "max_length (get_generation_config (speed_key Fast) (accuracy_key High_accuracy)) = 128
   \<and> claimed_max_length High_accuracy = 150
   \<and> num_beams (get_generation_config (speed_key Fast) (accuracy_key Maximum_accuracy)) = Some 8
   \<and> claimed_beam_width Fast = 1"
  by (simp add: get_generation_config_def dict_get_def)

subsection \<open>Model lifecycle\<close>

lemma set_status_fields [simp]:
  "fs (set_status msg s) = fs s"
  "calls (set_status msg s) = calls s"
  "tesseract_service (set_status msg s) = tesseract_service s"
  "status (trocr_service (set_status msg s)) = msg"
  "model_loaded (trocr_service (set_status msg s)) = model_loaded (trocr_service s)"
  "current_model_type (trocr_service (set_status msg s)) = current_model_type (trocr_service s)"
  by (simp_all add: set_status_def)

lemma log_call_fields [simp]:
  "fs (log_call cl s) = fs s"
  "calls (log_call cl s) = calls s @ [cl]"
  "tesseract_service (log_call cl s) = tesseract_service s"
  "trocr_service (log_call cl s) = trocr_service s"
  by (simp_all add: log_call_def)

lemma load_failed_fields [simp]:
  "fs (load_failed mt e s) = fs s"
  "calls (load_failed mt e s) = calls s"
  "tesseract_service (load_failed mt e s) = tesseract_service s"
  by (simp_all add: load_failed_def)

lemma load_from_fs [simp]: "fs (load_from env mt src g s) = fs s"
  by (simp add: load_from_def Let_def split: option.splits sum.splits)

lemma load_from_tesseract [simp]:
  "tesseract_service (load_from env mt src g s) = tesseract_service s"
  by (simp add: load_from_def Let_def split: option.splits sum.splits)

lemma load_from_calls:
  "\<exists>new. calls (load_from env mt src g s) = calls s @ Call_processor_from_pretrained src # new
     \<and> set new \<subseteq> {Call_model_from_pretrained src}"
  by (simp add: load_from_def Let_def split: option.splits sum.splits)

lemma load_model_fs [simp]: "fs (load_model env mt s) = fs s"
  by (simp add: load_model_def Let_def split: option.splits prod.splits)

lemma load_model_tesseract [simp]:
  "tesseract_service (load_model env mt s) = tesseract_service s"
  by (simp add: load_model_def Let_def split: option.splits prod.splits)

lemma check_local_model_iff:
  "fst (check_local_model env mt files) = cache_present env mt files"
  by (auto simp add: check_local_model_def cache_present_def Let_def)

lemma check_local_model_dir:
  "fst (check_local_model env mt files) \<Longrightarrow>
     snd (check_local_model env mt files) = Some (get_model_path env mt)"
  by (simp add: check_local_model_def Let_def split: if_splits)

lemma load_model_local_calls:
  assumes "fst (check_local_model env mt (fs s))" and "map_of available_models mt \<noteq> None"
  shows "\<exists>new. calls (load_model env mt s) =
            calls s @ Call_processor_from_pretrained (Some (get_model_path env mt)) # new
          \<and> set new \<subseteq> {Call_model_from_pretrained (Some (get_model_path env mt))}"
proof -
  from assms(2) obtain repo sz where cat: "map_of available_models mt = Some (repo, sz)"
    by auto
  obtain d where chk: "check_local_model env mt (fs s) = (True, d)"
    using assms(1) by (cases "check_local_model env mt (fs s)") auto
  have d: "d = Some (get_model_path env mt)"
    using check_local_model_dir [OF assms(1)] chk by simp
  show ?thesis
    using load_from_calls [of env mt "Some (get_model_path env mt)" _
        "set_status (''Loading TrOCR '' @ mt @ '' model from local cache...'') s"]
    by (simp add: load_model_def cat chk d)
qed

lemma load_from_effect:
  assumes "processor_from_pretrained env src = None" and "model_from_pretrained env src = None"
  shows "calls (load_from env mt src g s) =
           calls s @ [Call_processor_from_pretrained src, Call_model_from_pretrained src]
     \<and> processor (trocr_service (load_from env mt src g s)) = Some (Loaded_from src)
     \<and> model (trocr_service (load_from env mt src g s)) = Some (Loaded_from src)
     \<and> model_dir (trocr_service (load_from env mt src g s)) = src
     \<and> current_model_type (trocr_service (load_from env mt src g s)) = Some mt
     \<and> (model_to_device env = None \<and> (\<exists>u. device_upper env = Inr u)
          \<longrightarrow> model_loaded (trocr_service (load_from env mt src g s)))"
  using assms
  by (auto simp add: load_from_def load_failed_def set_status_def log_call_def Let_def
        split: option.splits sum.splits)

text \<open>
  Claim C5. When the local cache of model type \<open>Y\<close> is present (the directory and all files
  of both file sets; anything less is absent for the check of the code as well),
  \<^verbatim>\<open>download_model\<close> writes no script and starts no child process: the only external calls
  it makes are \<^verbatim>\<open>from_pretrained\<close> on the local directory, and the disk is unchanged. If
  \<open>Y\<close> is in the catalogue and not already resident, it does load, from that directory:
  the first call is the load of the processor from it, and when both loads succeed the
  calls are exactly these two, the processor and the model of the service are the ones
  loaded from the directory, the directory and \<open>Y\<close> are recorded as the current model, and
  the loaded flag is set once the model is on its device and the status is written.
\<close>

theorem present_cache_never_downloads:
  assumes "cache_present env Y (fs s)" and "download_model env Y s = (r, s')"
  shows "fst (check_local_model env Y (fs s))
    \<and> fs s' = fs s
    \<and> (\<exists>new. calls s' = calls s @ new
          \<and> set new \<subseteq> {Call_processor_from_pretrained (Some (get_model_path env Y)),
                        Call_model_from_pretrained (Some (get_model_path env Y))}
          \<and> (map_of available_models Y \<noteq> None
               \<and> \<not> (model_loaded (trocr_service s)
                      \<and> current_model_type (trocr_service s) = Some Y)
              \<longrightarrow> take 1 new = [Call_processor_from_pretrained (Some (get_model_path env Y))]))
    \<and> (map_of available_models Y \<noteq> None
         \<and> \<not> (model_loaded (trocr_service s) \<and> current_model_type (trocr_service s) = Some Y)
         \<and> processor_from_pretrained env (Some (get_model_path env Y)) = None
         \<and> model_from_pretrained env (Some (get_model_path env Y)) = None
        \<longrightarrow> dl_success r
            \<and> calls s' = calls s @ [Call_processor_from_pretrained (Some (get_model_path env Y)),
                                    Call_model_from_pretrained (Some (get_model_path env Y))]
            \<and> processor (trocr_service s') = Some (Loaded_from (Some (get_model_path env Y)))
            \<and> model (trocr_service s') = Some (Loaded_from (Some (get_model_path env Y)))
            \<and> model_dir (trocr_service s') = Some (get_model_path env Y)
            \<and> current_model_type (trocr_service s') = Some Y
            \<and> (model_to_device env = None \<and> (\<exists>u. device_upper env = Inr u)
                 \<longrightarrow> model_loaded (trocr_service s')))"
proof -
  let ?dir = "get_model_path env Y"
  have loc: "fst (check_local_model env Y (fs s))"
    using assms(1) by (simp add: check_local_model_iff)
  have chk: "check_local_model env Y (fs s) = (True, Some ?dir)"
    using loc check_local_model_dir [OF loc] by (cases "check_local_model env Y (fs s)") auto
  let ?s1 = "set_status (''Local '' @ Y @ '' model found, loading...'') s"
  show ?thesis
  proof (cases "map_of available_models Y = None
                \<or> (model_loaded (trocr_service s) \<and> current_model_type (trocr_service s) = Some Y)")
    case True
    then have "s' = s" using assms(2) by (auto simp add: download_model_def split: if_splits)
    with True loc show ?thesis by auto
  next
    case False
    then have s': "s' = load_model env Y ?s1" and r: "dl_success r"
      using assms(2) by (auto simp add: download_model_def chk Let_def)
    from False obtain repo sz where cat: "map_of available_models Y = Some (repo, sz)"
      by auto
    let ?s2 = "set_status (''Loading TrOCR '' @ Y @ '' model from local cache...'') ?s1"
    let ?g = "case cuda_gpu_info env of Some info \<Rightarrow> info | None \<Rightarrow> ''Not available''"
    have lm: "s' = load_from env Y (Some ?dir) ?g ?s2"
      unfolding s' by (simp add: load_model_def cat chk)
    have "fst (check_local_model env Y (fs ?s1))" using loc by simp
    from load_model_local_calls [OF this] False obtain new where
      new: "calls s' = calls s @ Call_processor_from_pretrained (Some ?dir) # new"
        "set new \<subseteq> {Call_model_from_pretrained (Some ?dir)}"
      unfolding s' by auto
    have eff: "processor_from_pretrained env (Some ?dir) = None
         \<and> model_from_pretrained env (Some ?dir) = None
        \<longrightarrow> calls s' = calls s @ [Call_processor_from_pretrained (Some ?dir),
                                    Call_model_from_pretrained (Some ?dir)]
            \<and> processor (trocr_service s') = Some (Loaded_from (Some ?dir))
            \<and> model (trocr_service s') = Some (Loaded_from (Some ?dir))
            \<and> model_dir (trocr_service s') = Some ?dir
            \<and> current_model_type (trocr_service s') = Some Y
            \<and> (model_to_device env = None \<and> (\<exists>u. device_upper env = Inr u)
                 \<longrightarrow> model_loaded (trocr_service s'))"
      using load_from_effect [of env "Some ?dir" Y ?g ?s2] unfolding lm by simp
    from new have part: "\<exists>new. calls s' = calls s @ new
          \<and> set new \<subseteq> {Call_processor_from_pretrained (Some ?dir),
                        Call_model_from_pretrained (Some ?dir)}
          \<and> (map_of available_models Y \<noteq> None
               \<and> \<not> (model_loaded (trocr_service s)
                      \<and> current_model_type (trocr_service s) = Some Y)
              \<longrightarrow> take 1 new = [Call_processor_from_pretrained (Some ?dir)])"
      by auto
    have "fs s' = fs s" unfolding s' by simp
    with loc part eff r show ?thesis by blast
  qed
qed

lemma base_printed_path:
  "get_model_path quiet_env ''base-printed'' = ''/srv/backend/python_ocr/trocr-base-printed''"
  by (simp add: get_model_path_def quiet_env_def path_join_def)

theorem present_cache_never_downloads_witness:
  "cache_present quiet_env ''base-printed'' (fs cached_sys)
   \<and> fs (snd (download_model quiet_env ''base-printed'' cached_sys)) = fs cached_sys
   \<and> calls (snd (download_model quiet_env ''base-printed'' cached_sys)) =
       calls cached_sys
         @ [Call_processor_from_pretrained (Some (get_model_path quiet_env ''base-printed'')),
            Call_model_from_pretrained (Some (get_model_path quiet_env ''base-printed''))]
   \<and> model (trocr_service (snd (download_model quiet_env ''base-printed'' cached_sys))) =
       Some (Loaded_from (Some (get_model_path quiet_env ''base-printed'')))
   \<and> current_model_type (trocr_service (snd (download_model quiet_env ''base-printed'' cached_sys)))
       = Some ''base-printed''
   \<and> model_loaded (trocr_service (snd (download_model quiet_env ''base-printed'' cached_sys)))"
proof -
  have h1: "cache_present quiet_env ''base-printed'' (fs cached_sys)"
    by (simp add: cache_present_def base_printed_path cached_sys_def initial_sys_def
          processor_files_def model_files_def path_join_def)
  have h2: "download_model quiet_env ''base-printed'' cached_sys =
     (fst (download_model quiet_env ''base-printed'' cached_sys),
      snd (download_model quiet_env ''base-printed'' cached_sys))"
    by simp
  have h3: "map_of available_models ''base-printed'' \<noteq> None"
    by (simp add: available_models_def)
  have h4: "\<not> model_loaded (trocr_service cached_sys)"
    by (simp add: cached_sys_def initial_sys_def)
  have h5: "processor_from_pretrained quiet_env (Some (get_model_path quiet_env ''base-printed'')) = None"
    "model_from_pretrained quiet_env (Some (get_model_path quiet_env ''base-printed'')) = None"
    "model_to_device quiet_env = None" "device_upper quiet_env = Inr ''CPU''"
    by (simp_all add: quiet_env_def)
  from present_cache_never_downloads [OF h1 h2] h1 h3 h4 h5 show ?thesis by simp
qed

subsection \<open>Download\<close>

lemma outer_handler_result:
  "outer_handler e s = (r, s') \<Longrightarrow>
     \<not> dl_success r \<and> dl_message r = ''Model download failed: '' @ e
     \<and> dl_status r = ''Model download failed: '' @ e
     \<and> fs s' = fs s \<and> calls s' = calls s \<and> tesseract_service s' = tesseract_service s"
  by (auto simp add: outer_handler_def Let_def)

lemma remove_if_exists_removed:
  "os_remove env path = None \<Longrightarrow>
     remove_if_exists env path s =
       (None, if path \<in> fs s then log_call (Call_remove path) (s\<lparr> fs := fs s - {path} \<rparr>) else s)"
  by (simp add: remove_if_exists_def Let_def log_call_def)

lemma remove_if_exists_refused:
  "os_remove env path = Some e \<Longrightarrow> path \<in> fs s \<Longrightarrow>
     remove_if_exists env path s = (Some e, log_call (Call_remove path) s)"
  by (simp add: remove_if_exists_def Let_def)

lemma run_download_cleans_up:
  assumes rm: "os_remove env (temp_script_path env) = None"
    and run: "subprocess_run env (temp_script_path env) (dirname (download_script_path env))
                (fs s) = (outcome, files)"
  shows "temp_script_path env \<notin> fs (snd (run_download env mt s))
     \<and> (case outcome of
           Completed returncode out err \<Rightarrow>
             if returncode = 0 then dl_success (fst (run_download env mt s))
             else \<not> dl_success (fst (run_download env mt s))
                  \<and> dl_message (fst (run_download env mt s)) = ''Download script failed: '' @ err
         | TimeoutExpired \<Rightarrow>
             \<not> dl_success (fst (run_download env mt s))
             \<and> dl_message (fst (run_download env mt s))
                 = ''Model download timed out after 5 minutes''
         | KeyboardInterrupt \<Rightarrow>
             \<not> dl_success (fst (run_download env mt s))
             \<and> dl_message (fst (run_download env mt s)) = ''Model download was interrupted''
         | Other_exception e \<Rightarrow>
             \<not> dl_success (fst (run_download env mt s))
             \<and> dl_message (fst (run_download env mt s))
                 = ''Download script execution failed: '' @ e)
     \<and> (dl_success (fst (run_download env mt s))
          \<or> (dl_message (fst (run_download env mt s)) \<noteq> []
              \<and> dl_status (fst (run_download env mt s))
                  = ''Error: '' @ dl_message (fst (run_download env mt s))))"
  by (cases outcome)
     (simp_all add: run_download_def Let_def run inner_handler_def
        remove_if_exists_removed [OF rm] download_failed_def)

text \<open>
  A download that starts and whose clean-up is not refused: however the child process ends,
  the temporary script is gone afterwards, and every end but exit code 0 gives a failure
  with a message that names the cause.
\<close>

lemma download_cleans_up_after_run:
  assumes cat: "map_of available_models mt \<noteq> None"
    and nres: "\<not> (model_loaded (trocr_service s) \<and> current_model_type (trocr_service s) = Some mt)"
    and nloc: "\<not> fst (check_local_model env mt (fs s))"
    and wr: "write_script env (temp_script_path env) = Written"
    and rm: "os_remove env (temp_script_path env) = None"
    and run: "subprocess_run env (temp_script_path env) (dirname (download_script_path env))
                (insert (temp_script_path env) (fs s)) = (outcome, files)"
    and dl: "download_model env mt s = (r, s')"
  shows "temp_script_path env \<notin> fs s'
     \<and> (case outcome of
           Completed returncode out err \<Rightarrow>
             if returncode = 0 then dl_success r
             else \<not> dl_success r \<and> dl_message r = ''Download script failed: '' @ err
         | TimeoutExpired \<Rightarrow>
             \<not> dl_success r \<and> dl_message r = ''Model download timed out after 5 minutes''
         | KeyboardInterrupt \<Rightarrow>
             \<not> dl_success r \<and> dl_message r = ''Model download was interrupted''
         | Other_exception e \<Rightarrow>
             \<not> dl_success r \<and> dl_message r = ''Download script execution failed: '' @ e)
     \<and> (dl_success r \<or> (dl_message r \<noteq> [] \<and> dl_status r = ''Error: '' @ dl_message r))"
proof -
  obtain d where chk: "check_local_model env mt (fs s) = (False, d)"
    using nloc by (cases "check_local_model env mt (fs s)") auto
  from cat obtain entry where cat': "map_of available_models mt = Some entry"
    by auto
  let ?s0 = "(log_call (Call_write_script (temp_script_path env))
               (set_status (''Downloading TrOCR '' @ mt
                              @ '' model... This may take several minutes.'') s))
             \<lparr> fs := insert (temp_script_path env) (fs s) \<rparr>"
  have dm: "download_model env mt s = run_download env mt ?s0"
    using nres wr by (auto simp add: download_model_def cat' chk Let_def)
  have run0: "subprocess_run env (temp_script_path env) (dirname (download_script_path env))
                (fs ?s0) = (outcome, files)"
    using run by simp
  have r: "r = fst (run_download env mt ?s0)" and s': "s' = snd (run_download env mt ?s0)"
    using dl dm by simp_all
  show ?thesis
    unfolding r s' by (rule run_download_cleans_up [OF rm run0])
qed

text \<open>
  When the write or the close of the temporary script raises after \<^verbatim>\<open>open\<close> has created it,
  the outer handler answers, and the script stays. When \<^verbatim>\<open>os.remove\<close> is refused, the outer
  handler answers as well, whatever the child process did, and the script stays.
\<close>

lemma download_write_failure:
  assumes cat: "map_of available_models mt \<noteq> None"
    and nres: "\<not> (model_loaded (trocr_service s) \<and> current_model_type (trocr_service s) = Some mt)"
    and nloc: "\<not> fst (check_local_model env mt (fs s))"
    and wr: "write_script env (temp_script_path env) = Write_raises e"
  shows "\<not> dl_success (fst (download_model env mt s))
     \<and> dl_message (fst (download_model env mt s)) = ''Model download failed: '' @ e
     \<and> fs (snd (download_model env mt s)) = insert (temp_script_path env) (fs s)
     \<and> calls (snd (download_model env mt s)) = calls s @ [Call_write_script (temp_script_path env)]"
proof -
  obtain d where chk: "check_local_model env mt (fs s) = (False, d)"
    using nloc by (cases "check_local_model env mt (fs s)") auto
  show ?thesis
    using cat nres wr
    by (simp add: download_model_def chk Let_def outer_handler_def split: if_splits)
qed

lemma inner_handler_refused:
  "os_remove env path = Some e \<Longrightarrow> path \<in> fs s \<Longrightarrow>
     inner_handler env path msg s = outer_handler e (log_call (Call_remove path) s)"
  by (simp add: inner_handler_def remove_if_exists_refused)

lemma run_download_refused:
  assumes rm: "os_remove env (temp_script_path env) = Some e"
    and run: "subprocess_run env (temp_script_path env) (dirname (download_script_path env))
                (fs s) = (outcome, files)"
    and left: "temp_script_path env \<in> files"
  shows "\<not> dl_success (fst (run_download env mt s))
     \<and> dl_message (fst (run_download env mt s)) = ''Model download failed: '' @ e
     \<and> temp_script_path env \<in> fs (snd (run_download env mt s))"
proof -
  let ?s1 = "(log_call (Call_subprocess_run (temp_script_path env)) s)\<lparr> fs := files \<rparr>"
  have in1: "temp_script_path env \<in> fs ?s1" using left by simp
  have in2: "temp_script_path env \<in> fs (log_call (Call_remove (temp_script_path env)) ?s1)"
    using left by (simp add: log_call_def)
  have hd: "\<And>msg. inner_handler env (temp_script_path env) msg ?s1 =
              outer_handler e (log_call (Call_remove (temp_script_path env)) ?s1)"
    by (rule inner_handler_refused [OF rm in1])
  have hd2: "\<And>msg. inner_handler env (temp_script_path env) msg
                      (log_call (Call_remove (temp_script_path env)) ?s1) =
              outer_handler e (log_call (Call_remove (temp_script_path env))
                                 (log_call (Call_remove (temp_script_path env)) ?s1))"
    by (rule inner_handler_refused [OF rm in2])
  have rr: "remove_if_exists env (temp_script_path env) ?s1 =
              (Some e, log_call (Call_remove (temp_script_path env)) ?s1)"
    by (rule remove_if_exists_refused [OF rm in1])
  show ?thesis
    using left
    by (cases outcome)
       (simp_all add: run_download_def Let_def run hd hd2 rr outer_handler_def)
qed

lemma download_remove_refused:
  assumes cat: "map_of available_models mt \<noteq> None"
    and nres: "\<not> (model_loaded (trocr_service s) \<and> current_model_type (trocr_service s) = Some mt)"
    and nloc: "\<not> fst (check_local_model env mt (fs s))"
    and wr: "write_script env (temp_script_path env) = Written"
    and rm: "os_remove env (temp_script_path env) = Some e"
    and run: "subprocess_run env (temp_script_path env) (dirname (download_script_path env))
                (insert (temp_script_path env) (fs s)) = (outcome, files)"
    and left: "temp_script_path env \<in> files"
  shows "\<not> dl_success (fst (download_model env mt s))
     \<and> dl_message (fst (download_model env mt s)) = ''Model download failed: '' @ e
     \<and> temp_script_path env \<in> fs (snd (download_model env mt s))"
proof -
  obtain d where chk: "check_local_model env mt (fs s) = (False, d)"
    using nloc by (cases "check_local_model env mt (fs s)") auto
  let ?s0 = "(log_call (Call_write_script (temp_script_path env))
               (set_status (''Downloading TrOCR '' @ mt
                              @ '' model... This may take several minutes.'') s))
             \<lparr> fs := insert (temp_script_path env) (fs s) \<rparr>"
  from cat obtain entry where cat': "map_of available_models mt = Some entry"
    by auto
  have dm: "download_model env mt s = run_download env mt ?s0"
    using nres wr by (auto simp add: download_model_def cat' chk Let_def)
  have run0: "subprocess_run env (temp_script_path env) (dirname (download_script_path env))
                (fs ?s0) = (outcome, files)"
    using run by simp
  show ?thesis
    unfolding dm by (rule run_download_refused [OF rm run0 left])
qed

text \<open>
  Claim C9. The half of the claim about the returned value holds: \<^verbatim>\<open>download_model\<close> returns
  its dictionary on every path. The half about the temporary script does not hold on the
  path through the outer handler: with the model \<^verbatim>\<open>large-handwritten\<close> neither resident nor
  cached and the disk full when the script is written, the script did not exist before, the
  call returns \<^verbatim>\<open>success = False\<close> with the message of the outer handler, no child process
  was started, and the script exists afterwards.
\<close>

theorem temporary_script_left_behind:
  "temp_script_path disk_full_env \<notin> fs initial_sys
   \<and> \<not> dl_success (fst (download_model disk_full_env ''large-handwritten'' initial_sys))
   \<and> dl_message (fst (download_model disk_full_env ''large-handwritten'' initial_sys))
       = ''Model download failed: [Errno 28] No space left on device''
   \<and> temp_script_path disk_full_env
       \<in> fs (snd (download_model disk_full_env ''large-handwritten'' initial_sys))
   \<and> calls (snd (download_model disk_full_env ''large-handwritten'' initial_sys))
       = [Call_write_script (temp_script_path disk_full_env)]"
proof -
  have cat: "map_of available_models ''large-handwritten'' \<noteq> None"
    by (simp add: available_models_def)
  have nres: "\<not> (model_loaded (trocr_service initial_sys)
                   \<and> current_model_type (trocr_service initial_sys) = Some ''large-handwritten'')"
    by (simp add: initial_sys_def)
  have nloc: "\<not> fst (check_local_model disk_full_env ''large-handwritten'' (fs initial_sys))"
    by (simp add: check_local_model_def initial_sys_def)
  have wr: "write_script disk_full_env (temp_script_path disk_full_env)
              = Write_raises ''[Errno 28] No space left on device''"
    by (simp add: disk_full_env_def quiet_env_def)
  from download_write_failure [OF cat nres nloc wr]
  show ?thesis by (simp add: initial_sys_def)
qed

subsection \<open>Cache clear\<close>

lemma rmtree_member [simp]:
  "path \<in> rmtree dir files \<longleftrightarrow> path \<in> files \<and> path \<noteq> dir \<and> \<not> prefix (dir @ ''/'') path"
  by (auto simp add: rmtree_def)


lemma srv_large_handwritten_path:
  "backend_dir env = ''/srv/backend'' \<Longrightarrow>
     get_model_path env ''large-handwritten'' = ''/srv/backend/python_ocr/trocr-large-handwritten''"
  by (simp add: get_model_path_def path_join_def)



subsection \<open>Confidence of the deterministic engine\<close>

text \<open>
  Claim C3, as amended. When the engine returns and pytesseract delivered the per-token
  confidences, the reported confidence is the average of the strictly positive ones, divided
  by 100; it is 0 when no positive value remains.
\<close>

theorem tesseract_confidence_is_scaled_average:
  assumes "tesseract_extract_text env img up k m b c sp ac s = (Inr r, s')"
      and "tesseract_input env img up k m b c sp ac = Inr pil"
      and "image_to_data env pil = Some conf"
  shows "res_confidence r =
     (let positive = filter (\<lambda>x. 0 < x) conf
      in if positive = [] then 0
         else (real_of_int (sum_list positive) / real (length positive)) / 100)"
  using assms
  by (auto simp add: tesseract_extract_text_def avg_confidence_def Let_def
        split: if_splits sum.splits)

lemma quiet_input:
  "tesseract_input quiet_env Source_image True 5 ''Adaptive Gaussian'' 11 2 ''balanced'' ''high'' =
     Inr (Adaptive_thresholded (Blurred (CvtColor Source_image COLOR_BGR2GRAY) (5, 5) 0)
            255 ADAPTIVE_THRESH_GAUSSIAN_C THRESH_BINARY 11 2)"
  by (simp add: tesseract_input_def get_preprocessing_settings_def dict_get_def
        preprocess_image_def quiet_env_def recording_cv2_def and_then_def)

lemma no_signal_input:
  "tesseract_input no_signal_env Source_image True 5 ''Adaptive Gaussian'' 11 2 ''balanced'' ''high'' =
     Inr (Adaptive_thresholded (Blurred (CvtColor Source_image COLOR_BGR2GRAY) (5, 5) 0)
            255 ADAPTIVE_THRESH_GAUSSIAN_C THRESH_BINARY 11 2)"
  by (simp add: tesseract_input_def get_preprocessing_settings_def dict_get_def
        preprocess_image_def no_signal_env_def quiet_env_def recording_cv2_def and_then_def)

lemma strip_hello: "strip ''hello world '' = ''hello world''"
  by (simp add: strip_def isspace_def)

theorem tesseract_confidence_is_scaled_average_witness:
  "tesseract_input quiet_env Source_image True 5 ''Adaptive Gaussian'' 11 2 ''balanced'' ''high'' =
     Inr (Adaptive_thresholded (Blurred (CvtColor Source_image COLOR_BGR2GRAY) (5, 5) 0)
            255 ADAPTIVE_THRESH_GAUSSIAN_C THRESH_BINARY 11 2)
   \<and> image_to_data quiet_env
        (Adaptive_thresholded (Blurred (CvtColor Source_image COLOR_BGR2GRAY) (5, 5) 0)
            255 ADAPTIVE_THRESH_GAUSSIAN_C THRESH_BINARY 11 2) = Some [-1, 96, 0, 90]
   \<and> (\<exists>r s'. tesseract_extract_text quiet_env Source_image True 5 ''Adaptive Gaussian'' 11 2
          ''balanced'' ''high'' initial_sys = (Inr r, s') \<and> res_confidence r = 93 / 100)"
proof -
  let ?pil = "Adaptive_thresholded (Blurred (CvtColor Source_image COLOR_BGR2GRAY) (5, 5) 0)
            255 ADAPTIVE_THRESH_GAUSSIAN_C THRESH_BINARY 11 2"
  have h3: "image_to_data quiet_env ?pil = Some [-1, 96, 0, 90]"
    by (simp add: quiet_env_def)
  obtain r s' where h1: "tesseract_extract_text quiet_env Source_image True 5 ''Adaptive Gaussian'' 11 2
          ''balanced'' ''high'' initial_sys = (Inr r, s')"
    by (simp add: tesseract_extract_text_def quiet_input initial_sys_def Let_def)
       (simp add: quiet_env_def)
  from tesseract_confidence_is_scaled_average [OF h1 quiet_input h3] have "res_confidence r = 93 / 100" by simp
  with h1 h3 quiet_input show ?thesis by blast
qed

text \<open>
  Claim C3 as stated fails: with the per-token confidences \<open>-1\<close> and \<open>0\<close> no positive value
  remains, and the reported confidence is 0, not 0.95.
\<close>

theorem empty_confidence_counterexample:
  "fst (tesseract_extract_text no_signal_env Source_image True 5 ''Adaptive Gaussian'' 11 2
          ''balanced'' ''high'' initial_sys) =
     Inr \<lparr> res_text = ''hello world'', res_confidence = 0, res_processing_time = 1,
           res_fallback_used = None, res_fallback_reason = None \<rparr>"
  by (simp add: tesseract_extract_text_def no_signal_input initial_sys_def Let_def strip_hello avg_confidence_def)
     (simp add: no_signal_env_def quiet_env_def strip_hello avg_confidence_def)

subsection \<open>Engine selection and fallback\<close>

lemma select_and_run_fallback:
  assumes "req_ocr_type req = ''trocr''"
    and "\<not> model_loaded (trocr_service s)
         \<or> current_model_type (trocr_service s) \<noteq> Some (req_model_type req)"
    and "download_model env (req_model_type req) s = (load_result, s1)"
    and "\<not> dl_success load_result"
  shows "select_and_run env req image_cv s =
     (case tesseract_extract_text env image_cv (req_use_preprocessing req)
             (req_blur_kernel req) (req_threshold_method req) (req_block_size req)
             (req_c_value req) (req_processing_speed req) (req_accuracy_level req) s1 of
        (Inl e, s2) \<Rightarrow> (Inl (Exception e), s2)
      | (Inr result, s2) \<Rightarrow>
          (Inr (result\<lparr> res_fallback_used := Some True,
                  res_fallback_reason :=
                    Some (''TrOCR model '' @ req_model_type req @ '' failed to load: ''
                            @ dl_message load_result) \<rparr>), s2))"
  using assms by (auto simp add: select_and_run_def)

lemma extract_text_engine:
  assumes "validate_image_file env"
    and "and_then (open_image env) (\<lambda>image. cvtColor (cv env) image COLOR_RGB2BGR) = Inr image_cv"
    and "save_uploaded_file env = Inr file_path"
  shows "extract_text env req s =
     (case select_and_run env req image_cv
             ((log_call Call_save_uploaded_file s)
                \<lparr> fs := insert file_path (insert ''uploads'' (fs s)) \<rparr>) of
        (Inl e, s2) \<Rightarrow> (Inl (HTTPException 500 (''OCR processing failed: '' @ str_exc env e)), s2)
      | (Inr result, s2) \<Rightarrow> (Inr (response_content req file_path result), s2))"
  using assms
  by (simp add: extract_text_def extract_text_body_def Let_def split: prod.splits sum.splits)

lemma response_content_fallback [simp]:
  "response_content req file_path (result\<lparr> res_fallback_used := u, res_fallback_reason := w \<rparr>)
     = response_content req file_path result"
  by (simp add: response_content_def)

lemma outer_handler_tesseract [simp]:
  "tesseract_service (snd (outer_handler e s)) = tesseract_service s"
  by (simp add: outer_handler_def Let_def)

lemma download_failed_tesseract [simp]:
  "tesseract_service (snd (download_failed msg out err s)) = tesseract_service s"
  by (simp add: download_failed_def Let_def)

lemma remove_if_exists_tesseract [simp]:
  "tesseract_service (snd (remove_if_exists env path s)) = tesseract_service s"
  by (simp add: remove_if_exists_def Let_def split: option.splits)

lemma inner_handler_tesseract [simp]:
  "tesseract_service (snd (inner_handler env path msg s)) = tesseract_service s"
proof -
  obtain x t where r: "remove_if_exists env path s = (x, t)"
    by (cases "remove_if_exists env path s")
  have "tesseract_service t = tesseract_service s"
    using remove_if_exists_tesseract [of env path s] by (simp add: r)
  then show ?thesis
    by (simp add: inner_handler_def r split: option.splits)
qed

lemma run_download_tesseract [simp]:
  "tesseract_service (snd (run_download env mt s)) = tesseract_service s"
proof -
  let ?s1 = "log_call (Call_subprocess_run (temp_script_path env)) s"
  obtain outcome files where run:
    "subprocess_run env (temp_script_path env) (dirname (download_script_path env)) (fs s)
       = (outcome, files)"
    by (cases "subprocess_run env (temp_script_path env) (dirname (download_script_path env)) (fs s)")
  obtain x t where r: "remove_if_exists env (temp_script_path env) (?s1\<lparr> fs := files \<rparr>) = (x, t)"
    by (cases "remove_if_exists env (temp_script_path env) (?s1\<lparr> fs := files \<rparr>)")
  have t: "tesseract_service t = tesseract_service s"
    using remove_if_exists_tesseract [of env "temp_script_path env" "?s1\<lparr> fs := files \<rparr>"]
    by (simp add: r)
  show ?thesis
    by (cases outcome; cases x)
       (simp_all add: run_download_def Let_def run r t)
qed

lemma download_model_tesseract [simp]:
  "tesseract_service (snd (download_model env mt s)) = tesseract_service s"
  by (simp add: download_model_def Let_def split: prod.splits write_outcome.splits)

lemma tesseract_not_initialized:
  "\<not> model_loaded (tesseract_service s) \<Longrightarrow>
     tesseract_extract_text env img up k m b c sp ac s =
       (Inl ''Tesseract not properly initialized'', s)"
  by (simp add: tesseract_extract_text_def)

lemma tesseract_result:
  assumes "model_loaded (tesseract_service s)"
    and "tesseract_input env img up k m b c sp ac = Inr pil"
    and "image_to_string env pil (get_ocr_settings sp ac) = Inr txt"
  shows "fst (tesseract_extract_text env img up k m b c sp ac s) =
     Inr \<lparr> res_text = strip txt,
           res_confidence = avg_confidence (image_to_data env pil) / 100,
           res_processing_time = elapsed env,
           res_fallback_used = None, res_fallback_reason = None \<rparr>"
  using assms by (simp add: tesseract_extract_text_def Let_def)

lemma timeout_download_fails:
  assumes "\<not> model_loaded (trocr_service s)"
    and "''/srv/backend/python_ocr/trocr-large-handwritten'' \<notin> fs s"
  shows "\<not> dl_success (fst (download_model timeout_env ''large-handwritten'' s))
     \<and> dl_message (fst (download_model timeout_env ''large-handwritten'' s))
         = ''Model download timed out after 5 minutes''"
proof -
  have b: "backend_dir timeout_env = ''/srv/backend''"
    by (simp add: timeout_env_def quiet_env_def)
  have nloc: "\<not> fst (check_local_model timeout_env ''large-handwritten'' (fs s))"
    using assms(2) by (simp add: check_local_model_def srv_large_handwritten_path [OF b])
  have cat: "map_of available_models ''large-handwritten'' \<noteq> None"
    by (simp add: available_models_def)
  have nres: "\<not> (model_loaded (trocr_service s)
                  \<and> current_model_type (trocr_service s) = Some ''large-handwritten'')"
    using assms(1) by simp
  have wr: "write_script timeout_env (temp_script_path timeout_env) = Written"
    and rm: "os_remove timeout_env (temp_script_path timeout_env) = None"
    by (simp_all add: timeout_env_def quiet_env_def)
  have run: "subprocess_run timeout_env (temp_script_path timeout_env)
               (dirname (download_script_path timeout_env))
               (insert (temp_script_path timeout_env) (fs s))
             = (TimeoutExpired, insert (temp_script_path timeout_env) (fs s))"
    by (simp add: timeout_env_def quiet_env_def)
  have dl: "download_model timeout_env ''large-handwritten'' s =
              (fst (download_model timeout_env ''large-handwritten'' s),
               snd (download_model timeout_env ''large-handwritten'' s))"
    by simp
  from download_cleans_up_after_run [OF cat nres nloc wr rm run dl] show ?thesis by simp
qed

lemma quiet_collaborators:
  "validate_image_file quiet_env"
  "and_then (open_image quiet_env) (\<lambda>image. cvtColor (cv quiet_env) image COLOR_RGB2BGR)
     = Inr (CvtColor Source_image COLOR_RGB2BGR)"
  "save_uploaded_file quiet_env = Inr ''uploads/note.png''"
  by (simp_all add: quiet_env_def recording_cv2_def and_then_def)

lemma timeout_collaborators:
  "validate_image_file timeout_env"
  "and_then (open_image timeout_env) (\<lambda>image. cvtColor (cv timeout_env) image COLOR_RGB2BGR)
     = Inr (CvtColor Source_image COLOR_RGB2BGR)"
  "save_uploaded_file timeout_env = Inr ''uploads/note.png''"
  by (simp_all add: timeout_env_def quiet_env_def recording_cv2_def and_then_def)

lemma sample_request_fields:
  "req_ocr_type sample_request = ''trocr''"
  "req_model_type sample_request = ''large-handwritten''"
  "req_use_preprocessing sample_request = True"
  "req_blur_kernel sample_request = 5"
  "req_threshold_method sample_request = ''Adaptive Gaussian''"
  "req_block_size sample_request = 11"
  "req_c_value sample_request = 2"
  "req_processing_speed sample_request = ''balanced''"
  "req_accuracy_level sample_request = ''high''"
  by (simp_all add: sample_request_def)

lemma sample_input:
  "cv env = recording_cv2 \<Longrightarrow>
   tesseract_input env (CvtColor Source_image COLOR_RGB2BGR) True 5 ''Adaptive Gaussian'' 11 2
       ''balanced'' ''high'' =
     Inr (Adaptive_thresholded
            (Blurred (CvtColor (CvtColor Source_image COLOR_RGB2BGR) COLOR_BGR2GRAY) (5, 5) 0)
            255 ADAPTIVE_THRESH_GAUSSIAN_C THRESH_BINARY 11 2)"
  by (simp add: tesseract_input_def get_preprocessing_settings_def dict_get_def
        preprocess_image_def recording_cv2_def and_then_def)

lemma sample_tesseract_result:
  assumes "model_loaded (tesseract_service s)"
    and "cv env = recording_cv2"
    and "image_to_string env = (\<lambda>i cfg. Inr ''hello world '')"
    and "image_to_data env = (\<lambda>i. Some [-1, 96, 0, 90])"
    and "elapsed env = 1"
  shows "fst (tesseract_extract_text env (CvtColor Source_image COLOR_RGB2BGR) True 5
                ''Adaptive Gaussian'' 11 2 ''balanced'' ''high'' s) =
     Inr \<lparr> res_text = ''hello world'', res_confidence = 93 / 100, res_processing_time = 1,
           res_fallback_used = None, res_fallback_reason = None \<rparr>"
  using tesseract_result [OF assms(1) sample_input [OF assms(2)], of "''hello world ''"] assms(3-5)
  by (simp add: avg_confidence_def strip_hello)

lemma download_unknown_model:
  "map_of available_models mt = None \<Longrightarrow>
     download_model env mt s =
       (\<lparr> dl_success = False,
          dl_message = ''Invalid model type: '' @ mt @ ''. Available types: ''
                         @ repr_list (map fst available_models),
          dl_status = ''Error'', dl_output = None, dl_error = None \<rparr>, s)"
  by (simp add: download_model_def)

lemma unknown_engine_select:
  "req_ocr_type req \<notin> {''tesseract'', ''trocr''} \<Longrightarrow>
     select_and_run env req image_cv s =
       (Inl (HTTPException 400 (''Invalid OCR type. Use 'tesseract' or 'trocr'' @ [CHR 0x27])), s)"
  by (simp add: select_and_run_def)

lemma unknown_engine_extract:
  assumes "req_ocr_type req \<notin> {''tesseract'', ''trocr''}"
  shows "(\<exists>detail. fst (extract_text env req s) = Inl (HTTPException 500 detail))
     \<and> trocr_service (snd (extract_text env req s)) = trocr_service s
     \<and> tesseract_service (snd (extract_text env req s)) = tesseract_service s
     \<and> fs (snd (extract_text env req s)) \<subseteq> fs s \<union> {p. save_uploaded_file env = Inr p} \<union> {''uploads''}
     \<and> (calls (snd (extract_text env req s)) = calls s
          \<or> calls (snd (extract_text env req s)) = calls s @ [Call_save_uploaded_file])"
  by (auto simp add: extract_text_def extract_text_body_def Let_def
        unknown_engine_select [OF assms] split: sum.splits)

text \<open>
  What the fallback does when it is taken: for a request for the engine \<^verbatim>\<open>trocr\<close> whose upload
  is accepted, whose model is not resident and for which \<^verbatim>\<open>download_model\<close> reports
  \<^verbatim>\<open>success = False\<close>, the deterministic engine is run with the parameters of the request;
  its exception becomes status 500, its result becomes the response, and the result
  dictionary of the route has the two fallback keys.
\<close>

lemma fallback_runs_deterministic_engine:
  assumes trocr: "req_ocr_type req = ''trocr''"
    and valid: "validate_image_file env"
    and decoded: "and_then (open_image env) (\<lambda>image. cvtColor (cv env) image COLOR_RGB2BGR) = Inr image_cv"
    and saved: "save_uploaded_file env = Inr file_path"
    and absent: "\<not> model_loaded (trocr_service s)
         \<or> current_model_type (trocr_service s) \<noteq> Some (req_model_type req)"
    and load: "download_model env (req_model_type req)
                 ((log_call Call_save_uploaded_file s)
                    \<lparr> fs := insert file_path (insert ''uploads'' (fs s)) \<rparr>) = (load_result, s1)"
    and failed: "\<not> dl_success load_result"
    and tess: "tesseract_extract_text env image_cv (req_use_preprocessing req)
             (req_blur_kernel req) (req_threshold_method req) (req_block_size req)
             (req_c_value req) (req_processing_speed req) (req_accuracy_level req) s1 = (outcome, s2)"
  shows "case outcome of
           Inl e \<Rightarrow>
             extract_text env req s =
               (Inl (HTTPException 500 (''OCR processing failed: '' @ e)), s2)
         | Inr result \<Rightarrow>
             extract_text env req s = (Inr (response_content req file_path result), s2)
             \<and> map_of (response_content req file_path result) ''text''
                 = Some (JString (res_text result))
             \<and> (\<exists>r. select_and_run env req image_cv
                        ((log_call Call_save_uploaded_file s)
                           \<lparr> fs := insert file_path (insert ''uploads'' (fs s)) \<rparr>) = (Inr r, s2)
                    \<and> res_text r = res_text result
                    \<and> res_fallback_used r = Some True
                    \<and> res_fallback_reason r =
                        Some (''TrOCR model '' @ req_model_type req @ '' failed to load: ''
                                @ dl_message load_result))"
proof -
  let ?s0 = "(log_call Call_save_uploaded_file s)
               \<lparr> fs := insert file_path (insert ''uploads'' (fs s)) \<rparr>"
  have absent0: "\<not> model_loaded (trocr_service ?s0)
         \<or> current_model_type (trocr_service ?s0) \<noteq> Some (req_model_type req)"
    using absent by (simp add: log_call_def)
  note sel = select_and_run_fallback [OF trocr absent0 load failed, of image_cv]
  note ext = extract_text_engine [OF valid decoded saved, of req s]
  show ?thesis
  proof (cases outcome)
    case (Inl e)
    with sel tess ext show ?thesis by (simp add: str_exc_def)
  next
    case (Inr result)
    with sel tess ext show ?thesis by (simp add: response_content_def)
  qed
qed

lemma select_and_run_loaded:
  assumes "req_ocr_type req = ''trocr''"
    and "\<not> model_loaded (trocr_service s)
         \<or> current_model_type (trocr_service s) \<noteq> Some (req_model_type req)"
    and "download_model env (req_model_type req) s = (load_result, s1)"
    and "dl_success load_result"
  shows "select_and_run env req image_cv s =
     raised (trocr_extract_text env image_cv (req_use_preprocessing req)
               (req_blur_kernel req) (req_threshold_method req) (req_block_size req)
               (req_c_value req) (req_processing_speed req) (req_accuracy_level req) s1)"
  using assms by (auto simp add: select_and_run_def)

text \<open>
  The body of the response has a fixed list of keys; the two fallback keys of the result
  dictionary are not among them.
\<close>

lemma response_has_no_fallback_key:
  "map_of (response_content req file_path result) ''fallback_used'' = None
   \<and> map_of (response_content req file_path result) ''fallback_reason'' = None"
  by (simp add: response_content_def)

text \<open>
  A load that raises inside \<^verbatim>\<open>_load_model\<close> is caught there. \<^verbatim>\<open>download_model\<close> does not look
  at the loaded flag afterwards and answers \<^verbatim>\<open>success = True\<close>, so the route does not fall
  back; the neural engine then refuses to run.
\<close>

lemma load_from_processor_raises:
  "processor_from_pretrained env src = Some e \<Longrightarrow>
     \<not> model_loaded (trocr_service (load_from env mt src g s))"
  by (simp add: load_from_def load_failed_def Let_def)

lemma swallowed_load_failure:
  assumes "cache_present env Y (fs s)"
    and "map_of available_models Y \<noteq> None"
    and "\<not> model_loaded (trocr_service s)"
    and "processor_from_pretrained env (Some (get_model_path env Y)) = Some e"
  shows "dl_success (fst (download_model env Y s))
     \<and> \<not> model_loaded (trocr_service (snd (download_model env Y s)))"
proof -
  have loc: "fst (check_local_model env Y (fs s))"
    using assms(1) by (simp add: check_local_model_iff)
  have chk: "check_local_model env Y (fs s) = (True, Some (get_model_path env Y))"
    using loc check_local_model_dir [OF loc]
    by (cases "check_local_model env Y (fs s)") auto
  from assms(2) obtain repo sz where cat: "map_of available_models Y = Some (repo, sz)"
    by auto
  show ?thesis
    using assms(3)
    by (simp add: download_model_def load_model_def chk cat Let_def
          load_from_processor_raises [OF assms(4)])
qed

lemma trocr_not_loaded:
  "\<not> model_loaded (trocr_service s) \<Longrightarrow>
     trocr_extract_text env img up k m b c sp ac s = (Inl ''TrOCR model not properly loaded'', s)"
  by (simp add: trocr_extract_text_def)

text \<open>
  Claim C2. The code breaks the claim in two ways, with Tesseract found at start-up in
  both. First, the download of the requested model times out and the deterministic engine
  answers, but the response has neither the fallback flag nor the fallback reason: lines
  89-90 put them into the result dictionary and lines 118-138 do not copy them. Second, the
  local copy of the requested model is complete and loading its processor raises:
  \<^verbatim>\<open>download_model\<close> answers \<^verbatim>\<open>success = True\<close>, the route does not fall back, and the request
  ends with status 500.
\<close>

theorem fallback_information_lost:
  "\<not> dl_success (fst (download_model timeout_env (req_model_type sample_request)
         ((log_call Call_save_uploaded_file initial_sys)
            \<lparr> fs := insert ''uploads/note.png'' (insert ''uploads'' (fs initial_sys)) \<rparr>)))
   \<and> model_loaded (tesseract_service initial_sys)
   \<and> fst (extract_text timeout_env sample_request initial_sys) =
       Inr (response_content sample_request ''uploads/note.png''
              \<lparr> res_text = ''hello world'', res_confidence = 93 / 100, res_processing_time = 1,
                res_fallback_used = None, res_fallback_reason = None \<rparr>)
   \<and> map_of (response_content sample_request ''uploads/note.png''
                \<lparr> res_text = ''hello world'', res_confidence = 93 / 100,
                  res_processing_time = 1,
                  res_fallback_used = None, res_fallback_reason = None \<rparr>) ''fallback_used''
       = None
   \<and> map_of (response_content sample_request ''uploads/note.png''
                \<lparr> res_text = ''hello world'', res_confidence = 93 / 100,
                  res_processing_time = 1,
                  res_fallback_used = None, res_fallback_reason = None \<rparr>) ''fallback_reason''
       = None
   \<and> processor_from_pretrained broken_model_env
         (Some (get_model_path broken_model_env ''base-printed''))
       = Some ''Unable to load the tokenizer''
   \<and> dl_success (fst (download_model broken_model_env (req_model_type cached_model_request)
         ((log_call Call_save_uploaded_file cached_sys)
            \<lparr> fs := insert ''uploads/note.png'' (insert ''uploads'' (fs cached_sys)) \<rparr>)))
   \<and> model_loaded (tesseract_service cached_sys)
   \<and> fst (extract_text broken_model_env cached_model_request cached_sys) =
       Inl (HTTPException 500 ''OCR processing failed: TrOCR model not properly loaded'')"
proof -
  let ?R = "\<lparr> res_text = ''hello world'', res_confidence = 93 / 100, res_processing_time = 1,
              res_fallback_used = None, res_fallback_reason = None \<rparr>"
  \<comment> \<open>the download times out\<close>
  let ?s0 = "(log_call Call_save_uploaded_file initial_sys)
          \<lparr> fs := insert ''uploads/note.png'' (insert ''uploads'' (fs initial_sys)) \<rparr>"
  let ?d = "download_model timeout_env (req_model_type sample_request) ?s0"
  let ?t = "tesseract_extract_text timeout_env (CvtColor Source_image COLOR_RGB2BGR)
              (req_use_preprocessing sample_request) (req_blur_kernel sample_request)
              (req_threshold_method sample_request) (req_block_size sample_request)
              (req_c_value sample_request) (req_processing_speed sample_request)
              (req_accuracy_level sample_request) (snd ?d)"
  have absent: "\<not> model_loaded (trocr_service initial_sys)
         \<or> current_model_type (trocr_service initial_sys) \<noteq> Some (req_model_type sample_request)"
    by (simp add: initial_sys_def)
  have nl: "\<not> model_loaded (trocr_service ?s0)"
    and nf: "''/srv/backend/python_ocr/trocr-large-handwritten'' \<notin> fs ?s0"
    by (simp_all add: initial_sys_def)
  have failed: "\<not> dl_success (fst ?d)"
    using timeout_download_fails [OF nl nf] by (simp add: sample_request_fields)
  have load: "?d = (fst ?d, snd ?d)" by simp
  have tess: "?t = (fst ?t, snd ?t)" by simp
  have res: "fst ?t = Inr ?R"
    unfolding sample_request_fields
    by (rule sample_tesseract_result)
       (simp_all add: initial_sys_def timeout_env_def quiet_env_def)
  from fallback_runs_deterministic_engine
         [OF sample_request_fields(1) timeout_collaborators absent load failed tess]
  have first: "fst (extract_text timeout_env sample_request initial_sys) =
       Inr (response_content sample_request ''uploads/note.png'' ?R)"
    by (simp add: res)
  have healthy: "model_loaded (tesseract_service initial_sys)"
    "model_loaded (tesseract_service cached_sys)"
    by (simp_all add: cached_sys_def initial_sys_def)
  \<comment> \<open>the load from the local copy raises\<close>
  let ?c0 = "(log_call Call_save_uploaded_file cached_sys)
          \<lparr> fs := insert ''uploads/note.png'' (insert ''uploads'' (fs cached_sys)) \<rparr>"
  let ?e = "download_model broken_model_env (req_model_type cached_model_request) ?c0"
  have f: "req_ocr_type cached_model_request = ''trocr''"
      "req_model_type cached_model_request = ''base-printed''"
    by (simp_all add: cached_model_request_def sample_request_def)
  have p: "get_model_path broken_model_env ''base-printed''
             = ''/srv/backend/python_ocr/trocr-base-printed''"
    by (simp add: get_model_path_def broken_model_env_def quiet_env_def path_join_def)
  have pres: "cache_present broken_model_env ''base-printed'' (fs ?c0)"
    by (simp add: cache_present_def p cached_sys_def initial_sys_def
          processor_files_def model_files_def path_join_def)
  have cat: "map_of available_models ''base-printed'' \<noteq> None"
    by (simp add: available_models_def)
  have nl2: "\<not> model_loaded (trocr_service ?c0)"
    by (simp add: cached_sys_def initial_sys_def)
  have raises: "processor_from_pretrained broken_model_env
                  (Some (get_model_path broken_model_env ''base-printed''))
                = Some ''Unable to load the tokenizer''"
    by (simp add: broken_model_env_def quiet_env_def)
  from swallowed_load_failure [OF pres cat nl2 raises]
  have sw: "dl_success (fst ?e)" "\<not> model_loaded (trocr_service (snd ?e))"
    by (simp_all add: f)
  have absent2: "\<not> model_loaded (trocr_service ?c0)
         \<or> current_model_type (trocr_service ?c0) \<noteq> Some (req_model_type cached_model_request)"
    using nl2 by simp
  have load2: "?e = (fst ?e, snd ?e)" by simp
  have sel: "select_and_run broken_model_env cached_model_request
               (CvtColor Source_image COLOR_RGB2BGR) ?c0 =
             (Inl (Exception ''TrOCR model not properly loaded''), snd ?e)"
    using select_and_run_loaded [OF f(1) absent2 load2 sw(1),
            of "CvtColor Source_image COLOR_RGB2BGR"]
    by (simp add: trocr_not_loaded [OF sw(2)] raised_def)
  have coll: "validate_image_file broken_model_env"
    "and_then (open_image broken_model_env)
       (\<lambda>image. cvtColor (cv broken_model_env) image COLOR_RGB2BGR)
     = Inr (CvtColor Source_image COLOR_RGB2BGR)"
    "save_uploaded_file broken_model_env = Inr ''uploads/note.png''"
    by (simp_all add: broken_model_env_def quiet_env_def recording_cv2_def and_then_def)
  have second: "fst (extract_text broken_model_env cached_model_request cached_sys) =
       Inl (HTTPException 500 ''OCR processing failed: TrOCR model not properly loaded'')"
    using extract_text_engine [OF coll, of cached_model_request cached_sys]
    unfolding sel by (simp add: str_exc_def)
  from failed healthy first raises sw(1) second response_has_no_fallback_key
  show ?thesis by simp
qed

subsection \<open>Input errors\<close>

lemma select_and_run_tesseract:
  "req_ocr_type req = ''tesseract'' \<Longrightarrow>
     select_and_run env req image_cv s =
       raised (tesseract_extract_text env image_cv (req_use_preprocessing req)
                 (req_blur_kernel req) (req_threshold_method req) (req_block_size req)
                 (req_c_value req) (req_processing_speed req) (req_accuracy_level req) s)"
  by (simp add: select_and_run_def)

lemma preset_has_all_keys:
  "\<exists>kk mm bb cc. get_preprocessing_settings (speed_key sp) ac =
     \<lparr> s_blur_kernel = Some kk, s_threshold_method = Some mm,
       s_block_size = Some bb, s_c_value = Some cc \<rparr>"
  by (cases sp) (simp_all add: get_preprocessing_settings_def Let_def)

lemma tesseract_input_ignores_request:
  "tesseract_input env img up k m b c (speed_key sp) ac =
     tesseract_input env img up k' m' b' c' (speed_key sp) ac"
proof -
  from preset_has_all_keys [of sp ac] obtain kk mm bb cc where
    "get_preprocessing_settings (speed_key sp) ac =
       \<lparr> s_blur_kernel = Some kk, s_threshold_method = Some mm,
         s_block_size = Some bb, s_c_value = Some cc \<rparr>"
    by blast
  then show ?thesis
    by (simp add: tesseract_input_def dict_get_def Let_def)
qed

lemma tesseract_ignores_request:
  "tesseract_extract_text env img up k m b c (speed_key sp) ac s =
     tesseract_extract_text env img up k' m' b' c' (speed_key sp) ac s"
  unfolding tesseract_extract_text_def
  by (simp add: tesseract_input_ignores_request [of env img up k m b c sp ac k' m' b' c'])

text \<open>
  Claim C4, as amended. Of the three kinds of input error only the unknown engine key is
  rejected before any engine work: such a request always ends with an error and never with
  an extraction result; by then at most the upload has been saved, no engine or model call
  has been made, and both services are unchanged. A model type that is not in the catalogue
  makes \<^verbatim>\<open>download_model\<close> return its structured failure at once, with the state unchanged,
  and in the route that failure is a failed load like any other: the deterministic engine
  processes the request. Preprocessing parameters are not validated: with a speed of the grid
  the deterministic engine replaces the four values of the request by those of the preset,
  so that bad values give the result of good ones, and the neural engine hands them to the
  pipeline as they are, where only an exception of OpenCV or of the model ends the request.
\<close>

theorem input_error_handling:
  "(req_ocr_type req \<notin> {''tesseract'', ''trocr''} \<longrightarrow>
      (\<exists>detail. fst (extract_text env req s) = Inl (HTTPException 500 detail))
      \<and> trocr_service (snd (extract_text env req s)) = trocr_service s
      \<and> tesseract_service (snd (extract_text env req s)) = tesseract_service s
      \<and> (calls (snd (extract_text env req s)) = calls s
           \<or> calls (snd (extract_text env req s)) = calls s @ [Call_save_uploaded_file]))
   \<and> (map_of available_models mt = None \<longrightarrow>
        download_model env mt s =
          (\<lparr> dl_success = False,
             dl_message = ''Invalid model type: '' @ mt @ ''. Available types: ''
                            @ repr_list (map fst available_models),
             dl_status = ''Error'', dl_output = None, dl_error = None \<rparr>, s))
   \<and> (req_ocr_type req = ''trocr'' \<and> map_of available_models (req_model_type req) = None
        \<and> current_model_type (trocr_service s) \<noteq> Some (req_model_type req) \<longrightarrow>
        select_and_run env req image_cv s =
          (case tesseract_extract_text env image_cv (req_use_preprocessing req)
                  (req_blur_kernel req) (req_threshold_method req) (req_block_size req)
                  (req_c_value req) (req_processing_speed req) (req_accuracy_level req) s of
             (Inl e, s2) \<Rightarrow> (Inl (Exception e), s2)
           | (Inr result, s2) \<Rightarrow>
               (Inr (result\<lparr> res_fallback_used := Some True,
                       res_fallback_reason :=
                         Some (''TrOCR model '' @ req_model_type req @ '' failed to load: ''
                                 @ ''Invalid model type: '' @ req_model_type req
                                 @ ''. Available types: ''
                                 @ repr_list (map fst available_models)) \<rparr>), s2)))
   \<and> tesseract_extract_text env img up k m b c (speed_key sp) ac s =
       tesseract_extract_text env img up k' m' b' c' (speed_key sp) ac s
   \<and> (model_loaded (trocr_service s) \<longrightarrow>
        trocr_extract_text env img True k m b c spd ac s =
          (case preprocess_image (cv env) img k m b c 127 of
             Inl e \<Rightarrow> (Inl (''TrOCR processing failed: '' @ e), s)
           | Inr pil_image \<Rightarrow>
               (case recognise env (model (trocr_service s)) pil_image
                       (get_generation_config spd ac) of
                  Inl e \<Rightarrow>
                    (Inl (''TrOCR processing failed: '' @ e), log_call Call_model_generate s)
                | Inr extracted_text \<Rightarrow>
                    (Inr \<lparr> res_text = strip extracted_text, res_confidence = 0.95,
                           res_processing_time = elapsed env,
                           res_fallback_used = None, res_fallback_reason = None \<rparr>,
                     log_call Call_model_generate s))))"
proof (intro conjI impI)
  assume a: "req_ocr_type req = ''trocr'' \<and> map_of available_models (req_model_type req) = None
        \<and> current_model_type (trocr_service s) \<noteq> Some (req_model_type req)"
  then have ab: "\<not> model_loaded (trocr_service s)
         \<or> current_model_type (trocr_service s) \<noteq> Some (req_model_type req)" by simp
  from a have d: "download_model env (req_model_type req) s =
       (\<lparr> dl_success = False,
          dl_message = ''Invalid model type: '' @ req_model_type req @ ''. Available types: ''
                         @ repr_list (map fst available_models),
          dl_status = ''Error'', dl_output = None, dl_error = None \<rparr>, s)"
    by (simp add: download_unknown_model)
  show "select_and_run env req image_cv s =
          (case tesseract_extract_text env image_cv (req_use_preprocessing req)
                  (req_blur_kernel req) (req_threshold_method req) (req_block_size req)
                  (req_c_value req) (req_processing_speed req) (req_accuracy_level req) s of
             (Inl e, s2) \<Rightarrow> (Inl (Exception e), s2)
           | (Inr result, s2) \<Rightarrow>
               (Inr (result\<lparr> res_fallback_used := Some True,
                       res_fallback_reason :=
                         Some (''TrOCR model '' @ req_model_type req @ '' failed to load: ''
                                 @ ''Invalid model type: '' @ req_model_type req
                                 @ ''. Available types: ''
                                 @ repr_list (map fst available_models)) \<rparr>), s2))"
    using select_and_run_fallback [OF _ ab d, of image_cv] a
    by (simp split: prod.splits sum.splits)
next
  show "tesseract_extract_text env img up k m b c (speed_key sp) ac s =
       tesseract_extract_text env img up k' m' b' c' (speed_key sp) ac s"
    by (rule tesseract_ignores_request)
next
  assume "model_loaded (trocr_service s)"
  then show "trocr_extract_text env img True k m b c spd ac s =
          (case preprocess_image (cv env) img k m b c 127 of
             Inl e \<Rightarrow> (Inl (''TrOCR processing failed: '' @ e), s)
           | Inr pil_image \<Rightarrow>
               (case recognise env (model (trocr_service s)) pil_image
                       (get_generation_config spd ac) of
                  Inl e \<Rightarrow>
                    (Inl (''TrOCR processing failed: '' @ e), log_call Call_model_generate s)
                | Inr extracted_text \<Rightarrow>
                    (Inr \<lparr> res_text = strip extracted_text, res_confidence = 0.95,
                           res_processing_time = elapsed env,
                           res_fallback_used = None, res_fallback_reason = None \<rparr>,
                     log_call Call_model_generate s)))"
    by (simp add: trocr_extract_text_def Let_def split: sum.splits)
qed (simp_all add: unknown_engine_extract download_unknown_model)

lemma strip_plain: "strip ''hello'' = ''hello''"
  by (simp add: strip_def isspace_def)

theorem input_error_handling_witness:
  "req_ocr_type unknown_engine_request \<notin> {''tesseract'', ''trocr''}
   \<and> (\<exists>detail. fst (extract_text quiet_env unknown_engine_request initial_sys)
                  = Inl (HTTPException 500 detail))
   \<and> trocr_service (snd (extract_text quiet_env unknown_engine_request initial_sys))
       = trocr_service initial_sys
   \<and> map_of available_models ''bogus'' = None
   \<and> \<not> dl_success (fst (download_model quiet_env ''bogus'' initial_sys))
   \<and> snd (download_model quiet_env ''bogus'' initial_sys) = initial_sys
   \<and> req_ocr_type unknown_model_request = ''trocr''
   \<and> map_of available_models (req_model_type unknown_model_request) = None
   \<and> current_model_type (trocr_service initial_sys) \<noteq> Some (req_model_type unknown_model_request)
   \<and> (\<exists>r s2. select_and_run quiet_env unknown_model_request
                  (CvtColor Source_image COLOR_RGB2BGR) initial_sys = (Inr r, s2)
          \<and> res_text r = ''hello world'' \<and> res_fallback_used r = Some True)
   \<and> model_loaded (trocr_service resident_sys)
   \<and> trocr_extract_text quiet_env Source_image True 5 ''Adaptive Gaussian'' 11 2
         ''balanced'' ''high'' resident_sys =
       (Inr \<lparr> res_text = ''hello'', res_confidence = 0.95, res_processing_time = 1,
              res_fallback_used = None, res_fallback_reason = None \<rparr>,
        log_call Call_model_generate resident_sys)"
proof -
  have h1: "req_ocr_type unknown_engine_request \<notin> {''tesseract'', ''trocr''}"
    by (simp add: unknown_engine_request_def sample_request_def)
  have h2: "map_of available_models ''bogus'' = None"
    by (simp add: available_models_def)
  have f: "req_ocr_type unknown_model_request = ''trocr''"
      "req_model_type unknown_model_request = ''bogus''"
      "req_use_preprocessing unknown_model_request = True"
      "req_blur_kernel unknown_model_request = 5"
      "req_threshold_method unknown_model_request = ''Adaptive Gaussian''"
      "req_block_size unknown_model_request = 11"
      "req_c_value unknown_model_request = 2"
      "req_processing_speed unknown_model_request = ''balanced''"
      "req_accuracy_level unknown_model_request = ''high''"
    by (simp_all add: unknown_model_request_def sample_request_def)
  have h3: "current_model_type (trocr_service initial_sys)
              \<noteq> Some (req_model_type unknown_model_request)"
    by (simp add: initial_sys_def)
  have h4: "model_loaded (trocr_service resident_sys)"
    by (simp add: resident_sys_def initial_sys_def)
  let ?R = "\<lparr> res_text = ''hello world'', res_confidence = 93 / 100,
              res_processing_time = 1,
              res_fallback_used = None, res_fallback_reason = None \<rparr>"
  let ?t = "tesseract_extract_text quiet_env (CvtColor Source_image COLOR_RGB2BGR) True 5
              ''Adaptive Gaussian'' 11 2 ''balanced'' ''high'' initial_sys"
  have "fst ?t = Inr ?R"
    by (rule sample_tesseract_result) (simp_all add: initial_sys_def quiet_env_def)
  then obtain s2 where t: "?t = (Inr ?R, s2)"
    by (cases ?t) simp
  have pre: "preprocess_image (cv quiet_env) Source_image 5 ''Adaptive Gaussian'' 11 2 127 =
               Inr (Adaptive_thresholded
                      (Blurred (CvtColor Source_image COLOR_BGR2GRAY) (5, 5) 0)
                      255 ADAPTIVE_THRESH_GAUSSIAN_C THRESH_BINARY 11 2)"
    by (simp add: preprocess_image_def quiet_env_def recording_cv2_def and_then_def)
  have rec: "\<And>h i cfg. recognise quiet_env h i cfg = Inr ''hello''" "elapsed quiet_env = 1"
    by (simp_all add: quiet_env_def)
  note a = input_error_handling
             [of unknown_engine_request quiet_env initial_sys "''bogus''"]
  note b = input_error_handling
             [of unknown_model_request quiet_env initial_sys "''bogus''"
                 "CvtColor Source_image COLOR_RGB2BGR"]
  note c = input_error_handling
             [of unknown_engine_request quiet_env resident_sys "''bogus''" _
                 Source_image _ 5 "''Adaptive Gaussian''" 11 2 _ _ _ _ _ _ "''balanced''"]
  have p1: "(\<exists>detail. fst (extract_text quiet_env unknown_engine_request initial_sys)
                  = Inl (HTTPException 500 detail))
     \<and> trocr_service (snd (extract_text quiet_env unknown_engine_request initial_sys))
       = trocr_service initial_sys
     \<and> \<not> dl_success (fst (download_model quiet_env ''bogus'' initial_sys))
     \<and> snd (download_model quiet_env ''bogus'' initial_sys) = initial_sys"
    using a h1 h2 by simp
  have p2: "\<exists>r s2. select_and_run quiet_env unknown_model_request
                  (CvtColor Source_image COLOR_RGB2BGR) initial_sys = (Inr r, s2)
          \<and> res_text r = ''hello world'' \<and> res_fallback_used r = Some True"
    using b f(1) h2 h3 unfolding f t by simp
  have p3: "trocr_extract_text quiet_env Source_image True 5 ''Adaptive Gaussian'' 11 2
         ''balanced'' ''high'' resident_sys =
       (Inr \<lparr> res_text = ''hello'', res_confidence = 0.95, res_processing_time = 1,
              res_fallback_used = None, res_fallback_reason = None \<rparr>,
        log_call Call_model_generate resident_sys)"
    using c h4 by (simp add: pre rec strip_plain)
  from h1 h2 f(1) h3 h4 p1 p2 p3 show ?thesis by (simp add: f(2))
qed

text \<open>
  Claim C4 as stated fails: a request for \<^verbatim>\<open>trocr\<close> with the model type \<^verbatim>\<open>bogus\<close>, which is
  not in the catalogue, is answered with the extraction result of the deterministic engine;
  and a request for \<^verbatim>\<open>tesseract\<close> with the blur kernel \<open>-4\<close>, the threshold method
  \<^verbatim>\<open>Sauvola\<close> and the block size 10 is answered with the same extraction result.
\<close>

theorem input_errors_processed_counterexample:
  "map_of available_models (req_model_type unknown_model_request) = None
   \<and> fst (extract_text quiet_env unknown_model_request initial_sys) =
       Inr (response_content unknown_model_request ''uploads/note.png''
              \<lparr> res_text = ''hello world'', res_confidence = 93 / 100, res_processing_time = 1,
                res_fallback_used = None, res_fallback_reason = None \<rparr>)
   \<and> req_blur_kernel bad_parameters_request = -4
   \<and> req_threshold_method bad_parameters_request = ''Sauvola''
   \<and> req_block_size bad_parameters_request = 10
   \<and> fst (extract_text quiet_env bad_parameters_request initial_sys) =
       Inr (response_content bad_parameters_request ''uploads/note.png''
              \<lparr> res_text = ''hello world'', res_confidence = 93 / 100, res_processing_time = 1,
                res_fallback_used = None, res_fallback_reason = None \<rparr>)"
proof -
  let ?s0 = "(log_call Call_save_uploaded_file initial_sys)
          \<lparr> fs := insert ''uploads/note.png'' (insert ''uploads'' (fs initial_sys)) \<rparr>"
  have f: "req_ocr_type unknown_model_request = ''trocr''"
      "req_model_type unknown_model_request = ''bogus''"
      "req_use_preprocessing unknown_model_request = True"
      "req_blur_kernel unknown_model_request = 5"
      "req_threshold_method unknown_model_request = ''Adaptive Gaussian''"
      "req_block_size unknown_model_request = 11"
      "req_c_value unknown_model_request = 2"
      "req_processing_speed unknown_model_request = ''balanced''"
      "req_accuracy_level unknown_model_request = ''high''"
    by (simp_all add: unknown_model_request_def sample_request_def)
  have u: "map_of available_models ''bogus'' = None"
    by (simp add: available_models_def)
  have ab: "\<not> model_loaded (trocr_service ?s0)
         \<or> current_model_type (trocr_service ?s0) \<noteq> Some (req_model_type unknown_model_request)"
    by (simp add: initial_sys_def)
  let ?R = "\<lparr> res_text = ''hello world'', res_confidence = 93 / 100,
                  res_processing_time = 1,
                  res_fallback_used = None, res_fallback_reason = None \<rparr>"
  let ?t = "tesseract_extract_text quiet_env (CvtColor Source_image COLOR_RGB2BGR) True 5
              ''Adaptive Gaussian'' 11 2 ''balanced'' ''high'' ?s0"
  have "fst ?t = Inr ?R"
    by (rule sample_tesseract_result) (simp_all add: initial_sys_def quiet_env_def)
  then obtain s2 where t: "?t = (Inr ?R, s2)"
    by (cases ?t) simp
  obtain lr where d: "download_model quiet_env (req_model_type unknown_model_request) ?s0 = (lr, ?s0)"
    and nf: "\<not> dl_success lr"
    using download_unknown_model [of "req_model_type unknown_model_request" quiet_env ?s0] u
    by (simp add: f)
  have sel: "select_and_run quiet_env unknown_model_request
               (CvtColor Source_image COLOR_RGB2BGR) ?s0 =
      (Inr (?R \<lparr> res_fallback_used := Some True,
               res_fallback_reason :=
                 Some (''TrOCR model '' @ req_model_type unknown_model_request
                         @ '' failed to load: '' @ dl_message lr) \<rparr>), s2)"
    using select_and_run_fallback [OF f(1) ab d nf, of "CvtColor Source_image COLOR_RGB2BGR"]
    unfolding f(3-9) t by simp
  have first: "fst (extract_text quiet_env unknown_model_request initial_sys) =
       Inr (response_content unknown_model_request ''uploads/note.png'' ?R)"
    using extract_text_engine [OF quiet_collaborators, of unknown_model_request initial_sys]
    unfolding sel by (simp add: f u response_content_def)
  have g: "req_ocr_type bad_parameters_request = ''tesseract''"
      "req_use_preprocessing bad_parameters_request = True"
      "req_blur_kernel bad_parameters_request = -4"
      "req_threshold_method bad_parameters_request = ''Sauvola''"
      "req_block_size bad_parameters_request = 10"
      "req_c_value bad_parameters_request = 2"
      "req_processing_speed bad_parameters_request = ''balanced''"
      "req_accuracy_level bad_parameters_request = ''high''"
    by (simp_all add: bad_parameters_request_def sample_request_def)
  have same: "tesseract_extract_text quiet_env (CvtColor Source_image COLOR_RGB2BGR) True (-4)
                ''Sauvola'' 10 2 ''balanced'' ''high'' ?s0 = ?t"
    using tesseract_ignores_request
            [of quiet_env "CvtColor Source_image COLOR_RGB2BGR" True "-4" "''Sauvola''" 10 2
                Balanced "''high''" ?s0 5 "''Adaptive Gaussian''" 11 2]
    by simp
  have sel2: "select_and_run quiet_env bad_parameters_request
                (CvtColor Source_image COLOR_RGB2BGR) ?s0 = (Inr ?R, s2)"
    unfolding select_and_run_tesseract [OF g(1)] g(2-8) same t by (simp add: raised_def)
  have second: "fst (extract_text quiet_env bad_parameters_request initial_sys) =
       Inr (response_content bad_parameters_request ''uploads/note.png'' ?R)"
    using extract_text_engine [OF quiet_collaborators, of bad_parameters_request initial_sys]
    unfolding sel2 by simp
  from first second g(3-5) u f(2) show ?thesis by simp
qed

end
